theory Spec2Isabelle
  imports Main
begin

section \<open>Python values, strings and exceptions\<close>

text \<open>
  The module \<^verbatim>\<open>gunicorn/wsgi.py\<close> is Python 2: a \<^verbatim>\<open>str\<close> is a byte string, modelled
  as \<^typ>\<open>string\<close>. A value handed in by an application (a header name, a header value,
  a body chunk, a component of an address tuple) is either text (\<^verbatim>\<open>basestring\<close>) or some
  other object; of another object the module only ever uses its text, \<^verbatim>\<open>str(x)\<close> and, in
  the message of an assertion, \<^verbatim>\<open>repr(x)\<close>, which are taken to be the same (as they are
  for a number or \<^verbatim>\<open>None\<close>) and which the object carries with it. A tuple is kept
  apart, because the operator \<^verbatim>\<open>%\<close> that builds those messages takes a tuple on its
  right as the list of its arguments: \<open>Tuple xs\<close> is the tuple whose elements have the
  \<^verbatim>\<open>repr\<close> texts \<open>xs\<close>, and \<open>Obj\<close> is any other object.
\<close>

datatype pyobj =
    Str string
  | Obj string
  | Tuple "string list"

fun is_basestring :: "pyobj \<Rightarrow> bool" where
  "is_basestring (Str s) = True"
| "is_basestring (Obj s) = False"
| "is_basestring (Tuple xs) = False"

text \<open>\<^verbatim>\<open>sep.join(xs)\<close>, and \<^verbatim>\<open>str(x)\<close>: of a tuple it is the \<^verbatim>\<open>repr\<close> texts of the
  elements between parentheses, separated by a comma and a space, with a comma after a
  single element.\<close>

fun join :: "string \<Rightarrow> string list \<Rightarrow> string" where
  "join sep [] = []"
| "join sep [x] = x"
| "join sep (x # y # ys) = x @ sep @ join sep (y # ys)"

fun py_str :: "pyobj \<Rightarrow> string" where
  "py_str (Str s) = s"
| "py_str (Obj s) = s"
| "py_str (Tuple xs) = ''('' @ join '', '' xs @ (if length xs = 1 then '','' else []) @ '')''"

text \<open>The exceptions that leave the module. \<^verbatim>\<open>SocketError n\<close> is \<^verbatim>\<open>socket.error\<close> with
  \<^verbatim>\<open>e[0] == n\<close>; \<^verbatim>\<open>Reraised x\<close> is the application's own exception, handed to
  \<^verbatim>\<open>start_response\<close> as \<^verbatim>\<open>exc_info\<close> and raised again.\<close>

datatype error =
    AssertionError string
  | AttributeError
  | TypeError
  | IndexError
  | StopIteration
  | SocketError nat
  | Reraised string

text \<open>
  The statement \<^verbatim>\<open>assert isinstance(x, basestring), "%r..." % x\<close>, with the text that
  follows \<^verbatim>\<open>%r\<close> in the message as \<open>suffix\<close>: nothing is raised for text. Otherwise the
  message is built first: for a tuple of one element it holds the \<^verbatim>\<open>repr\<close> of that
  element, for a tuple of any other length the operator \<^verbatim>\<open>%\<close> raises \<^verbatim>\<open>TypeError\<close>
  (too many or too few arguments for the one conversion), and for any other object it
  holds the \<^verbatim>\<open>repr\<close> of the object.
\<close>

fun assert_basestring :: "pyobj \<Rightarrow> string \<Rightarrow> error option" where
  "assert_basestring (Str s) suffix = None"
| "assert_basestring (Obj x) suffix = Some (AssertionError (x @ suffix))"
| "assert_basestring (Tuple xs) suffix =
     (case xs of
        [x] \<Rightarrow> Some (AssertionError (x @ suffix))
      | _ \<Rightarrow> Some TypeError)"

text \<open>\<^verbatim>\<open>errno.ECONNRESET\<close>, with its value on Linux.\<close>

definition ECONNRESET :: nat where
  "ECONNRESET = 104"

definition CRLF :: string where
  "CRLF = [CHR 0x0D, CHR 0x0A]"

definition upper_letters :: string where
  "upper_letters = ''ABCDEFGHIJKLMNOPQRSTUVWXYZ''"

definition lower_letters :: string where
  "lower_letters = ''abcdefghijklmnopqrstuvwxyz''"

text \<open>\<^verbatim>\<open>str.lower()\<close> and \<^verbatim>\<open>str.upper()\<close> on a byte string: the ASCII letters change
  case, every other byte stays.\<close>

definition lower_char :: "char \<Rightarrow> char" where
  "lower_char c = (case map_of (zip upper_letters lower_letters) c of Some d \<Rightarrow> d | None \<Rightarrow> c)"

definition upper_char :: "char \<Rightarrow> char" where
  "upper_char c = (case map_of (zip lower_letters upper_letters) c of Some d \<Rightarrow> d | None \<Rightarrow> c)"

definition lower :: "string \<Rightarrow> string" where
  "lower s = map lower_char s"

definition upper :: "string \<Rightarrow> string" where
  "upper s = map upper_char s"

text \<open>\<^verbatim>\<open>str.strip()\<close> removes leading and trailing whitespace: space, tab, line feed,
  vertical tab, form feed and carriage return.\<close>

definition is_space :: "char \<Rightarrow> bool" where
  "is_space c = (c \<in> set [CHR '' '', CHR 0x09, CHR 0x0A, CHR 0x0B, CHR 0x0C, CHR 0x0D])"

definition strip :: "string \<Rightarrow> string" where
  "strip s = rev (dropWhile is_space (rev (dropWhile is_space s)))"

text \<open>\<^verbatim>\<open>s.split(c)\<close> for a one-character separator: cuts at every occurrence, and gives
  one piece more than there are separators (so never the empty list).\<close>

fun split_acc :: "char \<Rightarrow> string \<Rightarrow> string \<Rightarrow> string list" where
  "split_acc c cur [] = [rev cur]"
| "split_acc c cur (x # xs) =
     (if x = c then rev cur # split_acc c [] xs else split_acc c (x # cur) xs)"

definition split :: "string \<Rightarrow> char \<Rightarrow> string list" where
  "split s c = split_acc c [] s"

text \<open>\<^verbatim>\<open>xs[i]\<close> for \<^verbatim>\<open>i >= 0\<close>: raises \<^verbatim>\<open>IndexError\<close> out of range.\<close>

definition index :: "'a list \<Rightarrow> nat \<Rightarrow> error + 'a" where
  "index xs i = (if i < length xs then Inr (xs ! i) else Inl IndexError)"

section \<open>Header utilities (\<^verbatim>\<open>gunicorn.util\<close>)\<close>

text \<open>Modelled from the spec: \<^verbatim>\<open>is_hoppish\<close> of \<^verbatim>\<open>gunicorn.util\<close> is imported by the
  module and its source is not part of it. The specification gives it as a check of the
  name, case-insensitively, against the fixed set Connection, Keep-Alive,
  Proxy-Authenticate, Proxy-Authorization, TE, Trailers, Transfer-Encoding, Upgrade.\<close>

definition hop_headers :: "string list" where
  "hop_headers = [''connection'', ''keep-alive'', ''proxy-authenticate'',
     ''proxy-authorization'', ''te'', ''trailers'', ''transfer-encoding'', ''upgrade'']"

definition is_hoppish :: "string \<Rightarrow> bool" where
  "is_hoppish header = (lower header \<in> set hop_headers)"

section \<open>The transport\<close>

text \<open>
  The socket is outside the module. It is modelled by what it has accepted so far
  (\<open>sent\<close>, one entry per call) and by a script of what the next calls will meet
  (\<open>faults\<close>): \<open>None\<close> for a call that is accepted, \<open>Some n\<close> for one that raises
  \<^verbatim>\<open>socket.error\<close> with \<^verbatim>\<open>errno\<close> \<open>n\<close>. Once the script is used up every call is
  accepted.
\<close>

record transport =
  sent :: "string list"
  faults :: "nat option list"

definition sock_send :: "transport \<Rightarrow> string \<Rightarrow> error option \<times> transport" where
  "sock_send sock data =
     (case faults sock of
        [] \<Rightarrow> (None, sock\<lparr>sent := sent sock @ [data]\<rparr>)
      | None # fs \<Rightarrow> (None, sock\<lparr>sent := sent sock @ [data], faults := fs\<rparr>)
      | Some n # fs \<Rightarrow> (Some (SocketError n), sock\<lparr>faults := fs\<rparr>))"

text \<open>Modelled from the spec: \<^verbatim>\<open>write\<close> and \<^verbatim>\<open>write_chunk\<close> of \<^verbatim>\<open>gunicorn.util\<close> are
  imported by the module and their source is not part of it. The specification gives a
  chunk as one frame, the length in hexadecimal, CRLF, the data, CRLF, and an unchunked
  write as the raw bytes; the frame of the empty string is \<^verbatim>\<open>0\r\n\r\n\<close>. The case of
  the hexadecimal digits is not fixed there; upper case is taken.\<close>

definition hex_digit :: "nat \<Rightarrow> char" where
  "hex_digit d = ''0123456789ABCDEF'' ! d"

function hex :: "nat \<Rightarrow> string" where
  "hex n = (if n < 16 then [hex_digit n] else hex (n div 16) @ [hex_digit (n mod 16)])"
  by pat_completeness auto
termination
  by (relation "measure (\<lambda>n. n)") auto

definition chunk_frame :: "string \<Rightarrow> string" where
  "chunk_frame data = hex (length data) @ CRLF @ data @ CRLF"

definition write_chunk :: "transport \<Rightarrow> string \<Rightarrow> error option \<times> transport" where
  "write_chunk sock data = sock_send sock (chunk_frame data)"

definition util_write :: "transport \<Rightarrow> string \<Rightarrow> bool \<Rightarrow> error option \<times> transport" where
  "util_write sock data chunked_flag =
     (if chunked_flag then write_chunk sock data else sock_send sock data)"

section \<open>The parsed request and the session\<close>

text \<open>
  A parsed request comes from \<^verbatim>\<open>simplehttp.RequestParser\<close>, outside the module. The
  module reads its \<^verbatim>\<open>headers\<close>, \<^verbatim>\<open>path\<close>, \<^verbatim>\<open>method\<close>, \<^verbatim>\<open>query\<close>, \<^verbatim>\<open>version\<close>,
  \<^verbatim>\<open>body\<close> and the answer of \<^verbatim>\<open>should_close()\<close>.
\<close>

record parsed_request =
  req_method :: string
  req_path :: string
  req_query :: string
  req_version :: string
  req_headers :: "(string \<times> string) list"
  req_body :: string
  req_should_close :: bool

text \<open>An address is a string (a Unix socket path, or \<^verbatim>\<open>host:port\<close>), a pair
  \<^verbatim>\<open>(host, port)\<close> as \<^verbatim>\<open>accept()\<close> gives it, or \<^verbatim>\<open>None\<close>.\<close>

datatype address =
    AddrStr string
  | AddrTuple pyobj pyobj
  | AddrNone

datatype response_class = ResponseClass | KeepAliveResponseClass

text \<open>The fields of class \<^verbatim>\<open>Response\<close>. The back reference \<^verbatim>\<open>self.req\<close> is not a
  field: every method takes the session it points to as an argument. \<open>cls\<close> is the
  class of the object, which decides which \<^verbatim>\<open>default_headers\<close> runs.\<close>

record Response =
  cls :: response_class
  version :: string
  status :: string
  chunked :: bool
  headers :: "(string \<times> string) list"
  headers_sent :: bool

text \<open>
  The fields of class \<^verbatim>\<open>Request\<close> that the module reads again after \<^verbatim>\<open>__init__\<close>,
  the two class attributes \<^verbatim>\<open>RESPONSE_CLASS\<close> and \<^verbatim>\<open>SERVER_VERSION\<close> (the latter is
  built from \<^verbatim>\<open>gunicorn.__version__\<close>, which is not part of the module), and what the
  session reads from its surroundings: \<open>parser\<close> is the script of what the next calls
  of \<^verbatim>\<open>self.parser.next()\<close> give, \<open>http_date\<close> the text that \<^verbatim>\<open>http_date()\<close> renders
  from the clock, \<open>os_script_name\<close> the value of
  \<^verbatim>\<open>os.environ.get("SCRIPT_NAME", "")\<close>, and \<open>unquote\<close> is \<^verbatim>\<open>urllib.unquote\<close>.
\<close>

record Request =
  RESPONSE_CLASS :: response_class
  SERVER_VERSION :: string
  debug :: bool
  socket :: transport
  client_address :: address
  server_address :: address
  parser :: "(error + parsed_request option) list"
  response :: "Response option"
  req :: "parsed_request option"
  http_date :: string
  os_script_name :: string
  unquote :: "string \<Rightarrow> string"

section \<open>The response writer\<close>

text \<open>The loop of \<^verbatim>\<open>Response.__init__\<close> over the header list, on the two fields it
  changes, \<^verbatim>\<open>self.chunked\<close> and \<^verbatim>\<open>self.headers\<close>.\<close>

fun init_headers ::
  "(pyobj \<times> pyobj) list \<Rightarrow> bool \<times> (string \<times> string) list
     \<Rightarrow> error + (bool \<times> (string \<times> string) list)"
where
  "init_headers [] (ch, hs) = Inr (ch, hs)"
| "init_headers ((name, v) # rest) (ch, hs) =
     (case assert_basestring name '' is not a string'' of
        Some e \<Rightarrow> Inl e
      | None \<Rightarrow>
          (if is_hoppish (py_str name) then
             (let lname = strip (lower (py_str name)) in
              if lname = ''transfer-encoding'' then
                (case v of
                   Str val \<Rightarrow>
                     init_headers rest
                       ((if strip (lower val) = ''chunked'' then True else ch),
                        hs @ [(strip (py_str name), strip (py_str v))])
                 | _ \<Rightarrow> Inl AttributeError)
              else if lname = ''connection'' then
                (case v of
                   Str val \<Rightarrow>
                     if strip (lower val) \<noteq> ''upgrade'' then init_headers rest (ch, hs)
                     else init_headers rest (ch, hs @ [(strip (py_str name), strip (py_str v))])
                 | _ \<Rightarrow> Inl AttributeError)
              else init_headers rest (ch, hs))
           else init_headers rest (ch, hs @ [(strip (py_str name), strip (py_str v))])))"

definition Response_init ::
  "response_class \<Rightarrow> Request \<Rightarrow> string \<Rightarrow> (pyobj \<times> pyobj) list \<Rightarrow> error + Response"
where
  "Response_init c rq st hdrs =
     (case init_headers hdrs (False, []) of
        Inl e \<Rightarrow> Inl e
      | Inr (ch, hs) \<Rightarrow>
          Inr \<lparr>cls = c, version = SERVER_VERSION rq, status = st, chunked = ch,
               headers = hs, headers_sent = False\<rparr>)"

text \<open>\<^verbatim>\<open>Response.default_headers\<close>, and its override in \<^verbatim>\<open>KeepAliveResponse\<close>, which
  asks the parsed request of the session (\<^verbatim>\<open>self.req.req\<close>, \<^verbatim>\<open>None\<close> until the
  session has read one) whether the connection should close.\<close>

definition Response_default_headers :: "Request \<Rightarrow> Response \<Rightarrow> string list" where
  "Response_default_headers rq r =
     [''HTTP/1.1 '' @ status r @ CRLF,
      ''Server: '' @ version r @ CRLF,
      ''Date: '' @ http_date rq @ CRLF,
      ''Connection: close'' @ CRLF]"

definition KeepAliveResponse_default_headers :: "Request \<Rightarrow> Response \<Rightarrow> error + string list" where
  "KeepAliveResponse_default_headers rq r =
     (case req rq of
        None \<Rightarrow> Inl AttributeError
      | Some p \<Rightarrow>
          (let connection = (if req_should_close p then ''close'' else ''keep-alive'') in
           Inr [''HTTP/1.1 '' @ status r @ CRLF,
                ''Server: '' @ version r @ CRLF,
                ''Date: '' @ http_date rq @ CRLF,
                ''Connection: '' @ connection @ CRLF]))"

definition default_headers :: "Request \<Rightarrow> Response \<Rightarrow> error + string list" where
  "default_headers rq r =
     (case cls r of
        ResponseClass \<Rightarrow> Inr (Response_default_headers rq r)
      | KeepAliveResponseClass \<Rightarrow> KeepAliveResponse_default_headers rq r)"

text \<open>The text that \<^verbatim>\<open>send_headers\<close> hands to the transport: the default lines, one
  line \<^verbatim>\<open>"%s: %s\r\n"\<close> for each retained header, and the empty line.\<close>

definition header_block :: "string list \<Rightarrow> Response \<Rightarrow> string" where
  "header_block dh r =
     concat (dh @ map (\<lambda>(n, v). n @ '': '' @ v @ CRLF) (headers r)) @ CRLF"

text \<open>A method returns the exception it raised, if any, and the session and the
  response as the call left them: what it did before raising stays done.\<close>

definition send_headers :: "Request \<Rightarrow> Response \<Rightarrow> error option \<times> Request \<times> Response" where
  "send_headers rq r =
     (if headers_sent r then (None, rq, r)
      else
        (case default_headers rq r of
           Inl e \<Rightarrow> (Some e, rq, r)
         | Inr tosend \<Rightarrow>
             (case util_write (socket rq) (header_block tosend r) False of
                (Some e, sock) \<Rightarrow> (Some e, rq\<lparr>socket := sock\<rparr>, r)
              | (None, sock) \<Rightarrow> (None, rq\<lparr>socket := sock\<rparr>, r\<lparr>headers_sent := True\<rparr>))))"

definition Response_write ::
  "Request \<Rightarrow> Response \<Rightarrow> pyobj \<Rightarrow> error option \<times> Request \<times> Response"
where
  "Response_write rq r arg =
     (case send_headers rq r of
        (Some e, rq1, r1) \<Rightarrow> (Some e, rq1, r1)
      | (None, rq1, r1) \<Rightarrow>
          (case assert_basestring arg '' is not a string.'' of
             Some e \<Rightarrow> (Some e, rq1, r1)
           | None \<Rightarrow>
               (case util_write (socket rq1) (py_str arg) (chunked r1) of
                  (e, sock) \<Rightarrow> (e, rq1\<lparr>socket := sock\<rparr>, r1))))"

definition Response_close :: "Request \<Rightarrow> Response \<Rightarrow> error option \<times> Request \<times> Response" where
  "Response_close rq r =
     (case (if \<not> headers_sent r then send_headers rq r else (None, rq, r)) of
        (Some e, rq1, r1) \<Rightarrow> (Some e, rq1, r1)
      | (None, rq1, r1) \<Rightarrow>
          (if chunked r1 then
             (case write_chunk (socket rq1) [] of
                (e, sock) \<Rightarrow> (e, rq1\<lparr>socket := sock\<rparr>, r1))
           else (None, rq1, r1)))"

text \<open>A caller drives one writer through any sequence of the three operations; it may
  catch what an operation raises and go on, so the run keeps going after an error.\<close>

datatype op = SendHeaders | Write pyobj | Close

fun apply_op :: "op \<Rightarrow> Request \<times> Response \<Rightarrow> error option \<times> Request \<times> Response" where
  "apply_op SendHeaders (rq, r) = send_headers rq r"
| "apply_op (Write arg) (rq, r) = Response_write rq r arg"
| "apply_op Close (rq, r) = Response_close rq r"

fun run_ops :: "op list \<Rightarrow> Request \<times> Response \<Rightarrow> Request \<times> Response" where
  "run_ops [] s = s"
| "run_ops (x # xs) s = run_ops xs (snd (apply_op x s))"

text \<open>What one operation adds to the wire after the header block, in the words of the
  specification: a write of text adds the raw bytes, or one chunk frame when the
  response is chunked; closing a chunked response adds the terminal frame; nothing else
  adds anything.\<close>

fun body_frames :: "bool \<Rightarrow> op \<Rightarrow> string list" where
  "body_frames ch SendHeaders = []"
| "body_frames ch (Write (Str data)) = [if ch then chunk_frame data else data]"
| "body_frames ch (Write (Obj x)) = []"
| "body_frames ch (Write (Tuple xs)) = []"
| "body_frames ch Close = (if ch then [chunk_frame []] else [])"

text \<open>Which input headers the constructor retains, as the loop decides it: every
  header that is not hop-by-hop, every \<^verbatim>\<open>Transfer-Encoding\<close> header, and
  \<^verbatim>\<open>Connection: upgrade\<close>.\<close>

definition retained :: "string \<Rightarrow> pyobj \<Rightarrow> bool" where
  "retained name v =
     (if is_hoppish name then
        (if strip (lower name) = ''transfer-encoding'' then True
         else if strip (lower name) = ''connection'' then strip (lower (py_str v)) = ''upgrade''
         else False)
      else True)"

section \<open>The session: \<^verbatim>\<open>Request.read\<close>\<close>

text \<open>The local variables that the header loop of \<^verbatim>\<open>read\<close> assigns and the rest of
  the method reads. (\<^verbatim>\<open>host\<close> is assigned there too, and never read.)\<close>

record scan =
  forward_address :: address
  script_name :: string
  content_type :: string
  content_length :: string

fun scan_headers ::
  "(string \<times> string) list \<Rightarrow> scan \<Rightarrow> transport \<Rightarrow> error option \<times> scan \<times> transport"
where
  "scan_headers [] v sock = (None, v, sock)"
| "scan_headers ((hdr_name, hdr_value) # rest) v sock =
     (let name = lower hdr_name in
      if name = ''expect'' then
        (if lower hdr_value = ''100-continue'' then
           (case sock_send sock (''HTTP/1.1 100 Continue'' @ CRLF @ CRLF) of
              (Some e, sock1) \<Rightarrow> (Some e, v, sock1)
            | (None, sock1) \<Rightarrow> scan_headers rest v sock1)
         else scan_headers rest v sock)
      else if name = ''x-forwarded-for'' then
        scan_headers rest (v\<lparr>forward_address := AddrStr hdr_value\<rparr>) sock
      else if name = ''host'' then scan_headers rest v sock
      else if name = ''script_name'' then
        scan_headers rest (v\<lparr>script_name := hdr_value\<rparr>) sock
      else if name = ''content-type'' then
        scan_headers rest (v\<lparr>content_type := hdr_value\<rparr>) sock
      else if name = ''content-length'' then
        scan_headers rest (v\<lparr>content_length := hdr_value\<rparr>) sock
      else scan_headers rest v sock)"

text \<open>The idiom \<^verbatim>\<open>a = a.split(":")\<close>, \<^verbatim>\<open>if len(a) == 1: a.append('')\<close>, which
  \<^verbatim>\<open>read\<close> applies to the forwarded address and to the server address.\<close>

definition split_address :: "string \<Rightarrow> string list" where
  "split_address a =
     (let parts = split a (CHR '':'') in
      if length parts = 1 then parts @ [[]] else parts)"

text \<open>What \<^verbatim>\<open>read\<close> indexes with \<^verbatim>\<open>[0]\<close> and \<^verbatim>\<open>[1]\<close>: the list of a split string, the
  tuple itself, and nothing for \<^verbatim>\<open>None\<close> (indexing it raises \<^verbatim>\<open>TypeError\<close>). In the
  string case the source tests \<^verbatim>\<open>"," in forward_address\<close> and assigns the last
  comma-separated piece, stripped, to the name \<^verbatim>\<open>forward_adress\<close>, which nothing reads;
  \<^verbatim>\<open>remote_addr\<close> is split from \<^verbatim>\<open>forward_address\<close>.\<close>

definition remote_addr_of :: "address \<Rightarrow> pyobj list option" where
  "remote_addr_of forward_addr =
     (case forward_addr of
        AddrStr s \<Rightarrow>
          (let forward_adress =
                 (if CHR '','' \<in> set s then Some (strip (last (split s (CHR '','')))) else None)
           in Some (map Str (split_address s)))
      | AddrTuple h p \<Rightarrow> Some [h, p]
      | AddrNone \<Rightarrow> None)"

definition server_addr_of :: "address \<Rightarrow> pyobj list option" where
  "server_addr_of server_addr =
     (case server_addr of
        AddrStr s \<Rightarrow> Some (map Str (split_address s))
      | AddrTuple h p \<Rightarrow> Some [h, p]
      | AddrNone \<Rightarrow> None)"

text \<open>\<^verbatim>\<open>s.split(sep, 1)[-1]\<close> for a non-empty \<^verbatim>\<open>sep\<close>: what follows the first
  occurrence of \<^verbatim>\<open>sep\<close> in \<^verbatim>\<open>s\<close>, and \<^verbatim>\<open>s\<close> itself when there is none.\<close>

fun after_first :: "string \<Rightarrow> string \<Rightarrow> string option" where
  "after_first sep [] = None"
| "after_first sep (c # cs) =
     (if take (length sep) (c # cs) = sep then Some (drop (length sep) (c # cs))
      else after_first sep cs)"

definition split1_last :: "string \<Rightarrow> string \<Rightarrow> string" where
  "split1_last s sep = (case after_first sep s of Some t \<Rightarrow> t | None \<Rightarrow> s)"

text \<open>The values of the request context.\<close>

datatype envval =
    Val pyobj
  | Flag bool
  | Version nat nat
  | Input string
  | Stderr

type_synonym environ = "string \<rightharpoonup> envval"

text \<open>The last loop of \<^verbatim>\<open>read\<close>: one entry per header of the request.\<close>

fun http_headers :: "(string \<times> string) list \<Rightarrow> environ \<Rightarrow> environ" where
  "http_headers [] env = env"
| "http_headers ((key, val) # rest) env =
     (let k = ''HTTP_'' @ map (\<lambda>c. if c = CHR ''-'' then CHR ''_'' else c) (upper key) in
      if k \<noteq> ''HTTP_CONTENT_TYPE'' \<and> k \<noteq> ''HTTP_CONTENT_LENGTH''
      then http_headers rest (env(k \<mapsto> Val (Str val)))
      else http_headers rest env)"

text \<open>The part of \<^verbatim>\<open>read\<close> after the header loop.\<close>

definition build_environ :: "Request \<Rightarrow> parsed_request \<Rightarrow> scan \<Rightarrow> error + environ" where
  "build_environ rq r v =
     (let wsgi_multiprocess = (debug rq = False);
          path_info = (if script_name v \<noteq> [] then split1_last (req_path r) (script_name v)
                       else req_path r)
      in
      case remote_addr_of (forward_address v) of
        None \<Rightarrow> Inl TypeError
      | Some remote_addr \<Rightarrow>
      (case index remote_addr 0 of Inl e \<Rightarrow> Inl e | Inr remote0 \<Rightarrow>
      (case index remote_addr 1 of Inl e \<Rightarrow> Inl e | Inr remote1 \<Rightarrow>
      (case server_addr_of (server_address rq) of
        None \<Rightarrow> Inl TypeError
      | Some server_addr \<Rightarrow>
      (case index server_addr 0 of Inl e \<Rightarrow> Inl e | Inr server0 \<Rightarrow>
      (case index server_addr 1 of Inl e \<Rightarrow> Inl e | Inr server1 \<Rightarrow>
        Inr (http_headers (req_headers r)
          [''wsgi.url_scheme'' \<mapsto> Val (Str ''http''),
           ''wsgi.input'' \<mapsto> Input (req_body r),
           ''wsgi.errors'' \<mapsto> Stderr,
           ''wsgi.version'' \<mapsto> Version 1 0,
           ''wsgi.multithread'' \<mapsto> Flag False,
           ''wsgi.multiprocess'' \<mapsto> Flag wsgi_multiprocess,
           ''wsgi.run_once'' \<mapsto> Flag False,
           ''SCRIPT_NAME'' \<mapsto> Val (Str (script_name v)),
           ''SERVER_SOFTWARE'' \<mapsto> Val (Str (SERVER_VERSION rq)),
           ''REQUEST_METHOD'' \<mapsto> Val (Str (req_method r)),
           ''PATH_INFO'' \<mapsto> Val (Str (unquote rq path_info)),
           ''QUERY_STRING'' \<mapsto> Val (Str (req_query r)),
           ''RAW_URI'' \<mapsto> Val (Str (req_path r)),
           ''CONTENT_TYPE'' \<mapsto> Val (Str (content_type v)),
           ''CONTENT_LENGTH'' \<mapsto> Val (Str (content_length v)),
           ''REMOTE_ADDR'' \<mapsto> Val remote0,
           ''REMOTE_PORT'' \<mapsto> Val (Str (py_str remote1)),
           ''SERVER_NAME'' \<mapsto> Val server0,
           ''SERVER_PORT'' \<mapsto> Val (Str (py_str server1)),
           ''SERVER_PROTOCOL'' \<mapsto> Val (Str (req_version r))])))))))"

text \<open>\<^verbatim>\<open>Request.read\<close>. It returns what it raised or the context, and the session as
  the call left it: the parser has moved on, \<^verbatim>\<open>self.req\<close> is set, and the transport
  holds the interim response to \<^verbatim>\<open>Expect: 100-continue\<close>.\<close>

definition Request_read :: "Request \<Rightarrow> (error + environ) \<times> Request" where
  "Request_read rq =
     (case parser rq of
        [] \<Rightarrow> (Inl StopIteration, rq)
      | Inl e # nxt \<Rightarrow> (Inl e, rq\<lparr>parser := nxt\<rparr>)
      | Inr None # nxt \<Rightarrow> (Inl AttributeError, rq\<lparr>parser := nxt, req := None\<rparr>)
      | Inr (Some r) # nxt \<Rightarrow>
          (let client =
                 (case client_address rq of
                    AddrNone \<Rightarrow> AddrStr ''127.0.0.1''
                  | AddrStr s \<Rightarrow> (if s = [] then AddrStr ''127.0.0.1'' else AddrStr s)
                  | AddrTuple h p \<Rightarrow> AddrTuple h p)
           in
           case scan_headers (req_headers r)
                  \<lparr>forward_address = client, script_name = os_script_name rq,
                   content_type = [], content_length = []\<rparr> (socket rq) of
             (Some e, v, sock) \<Rightarrow> (Inl e, rq\<lparr>parser := nxt, req := Some r, socket := sock\<rparr>)
           | (None, v, sock) \<Rightarrow>
               (build_environ rq r v, rq\<lparr>parser := nxt, req := Some r, socket := sock\<rparr>)))"

text \<open>\<^verbatim>\<open>Request.start_response\<close>. \<open>exc_info\<close> is \<open>Some x\<close> for a true
  \<^verbatim>\<open>exc_info\<close> triple of the exception \<open>x\<close> and \<open>None\<close> otherwise. The callable it
  returns is the \<^verbatim>\<open>write\<close> of the response now in \<^verbatim>\<open>self.response\<close>. When it raises,
  the session is as it was: \<^verbatim>\<open>self.response\<close> is assigned only after the constructor has
  returned.\<close>

definition install_response ::
  "Request \<Rightarrow> string \<Rightarrow> (pyobj \<times> pyobj) list \<Rightarrow> error + Request"
where
  "install_response rq st hdrs =
     (case Response_init (RESPONSE_CLASS rq) rq st hdrs of
        Inl e \<Rightarrow> Inl e
      | Inr r \<Rightarrow> Inr (rq\<lparr>response := Some r\<rparr>))"

definition start_response ::
  "Request \<Rightarrow> string \<Rightarrow> (pyobj \<times> pyobj) list \<Rightarrow> string option \<Rightarrow> error + Request"
where
  "start_response rq st hdrs exc_info =
     (case exc_info of
        Some x \<Rightarrow>
          (case response rq of
             Some r \<Rightarrow> (if headers_sent r then Inl (Reraised x) else install_response rq st hdrs)
           | None \<Rightarrow> install_response rq st hdrs)
      | None \<Rightarrow>
          (case response rq of
             Some r \<Rightarrow> Inl (AssertionError ''Response headers already set!'')
           | None \<Rightarrow> install_response rq st hdrs))"

section \<open>The keep-alive session\<close>

text \<open>\<^verbatim>\<open>KeepAliveRequest.read\<close>: a bare \<^verbatim>\<open>return\<close> gives \<^verbatim>\<open>None\<close>, modelled by
  \<open>Inr None\<close>.\<close>

definition KeepAliveRequest_read :: "Request \<Rightarrow> (error + environ option) \<times> Request" where
  "KeepAliveRequest_read rq =
     (case Request_read rq of
        (Inr env, rq1) \<Rightarrow> (Inr (Some env), rq1)
      | (Inl (SocketError n), rq1) \<Rightarrow>
          (if n = ECONNRESET then (Inr None, rq1) else (Inl (SocketError n), rq1))
      | (Inl e, rq1) \<Rightarrow> (Inl e, rq1))"

text \<open>Splitting at the last colon, as the specification words it: the host is what
  precedes the last colon and the port what follows it; without a colon the port is
  empty.\<close>

definition split_last_colon :: "string \<Rightarrow> string \<times> string" where
  "split_last_colon a =
     (if CHR '':'' \<in> set a
      then (rev (drop 1 (dropWhile (\<lambda>c. c \<noteq> CHR '':'') (rev a))),
            rev (takeWhile (\<lambda>c. c \<noteq> CHR '':'') (rev a)))
      else (a, []))"

text \<open>What the code's split gives as host and port, in plain terms: the host is the
  text before the first colon, the port the text between the first colon and the second
  (or the end).\<close>

definition before_colon :: "string \<Rightarrow> string" where
  "before_colon s = takeWhile (\<lambda>c. c \<noteq> CHR '':'') s"

definition after_colon :: "string \<Rightarrow> string" where
  "after_colon s = drop 1 (dropWhile (\<lambda>c. c \<noteq> CHR '':'') s)"

section \<open>Example inputs\<close>

definition example_request :: Request where
  "example_request =
     \<lparr>RESPONSE_CLASS = ResponseClass, SERVER_VERSION = ''gunicorn/0.5'', debug = False,
      socket = \<lparr>sent = [], faults = []\<rparr>,
      client_address = AddrStr ''192.168.1.5:54321'',
      server_address = AddrStr ''127.0.0.1:8000'',
      parser = [], response = None, req = None,
      http_date = ''Thu, 01 Jan 1970 00:00:00 GMT'',
      os_script_name = [], unquote = (\<lambda>s. s)\<rparr>"

definition example_parsed :: "(string \<times> string) list \<Rightarrow> parsed_request" where
  "example_parsed hdrs =
     \<lparr>req_method = ''GET'', req_path = ''/app/api/users'', req_query = [],
      req_version = ''HTTP/1.1'', req_headers = hdrs, req_body = [],
      req_should_close = False\<rparr>"

definition example_response :: Response where
  "example_response =
     \<lparr>cls = ResponseClass, version = ''gunicorn/0.5'', status = ''200 OK'', chunked = False,
      headers = [(''Content-Type'', ''text/plain'')], headers_sent = False\<rparr>"

section \<open>Auxiliary facts\<close>

lemmas text_defs = lower_def lower_char_def upper_def upper_char_def upper_letters_def
  lower_letters_def strip_def is_space_def is_hoppish_def hop_headers_def

lemmas read_defs = Request_read_def build_environ_def remote_addr_of_def server_addr_of_def
  split_address_def split_def index_def Let_def

lemmas send_defs = send_headers_def default_headers_def Response_default_headers_def
  header_block_def util_write_def sock_send_def

subsection \<open>Splitting\<close>

lemma split_acc_eq:
  "split_acc c cur s =
     (rev cur @ takeWhile (\<lambda>x. x \<noteq> c) s) #
       (case dropWhile (\<lambda>x. x \<noteq> c) s of [] \<Rightarrow> [] | y # rest \<Rightarrow> split_acc c [] rest)"
  by (induction s arbitrary: cur) auto

lemma split_no_colon:
  assumes "dropWhile (\<lambda>x. x \<noteq> c) s = []"
  shows "split s c = [takeWhile (\<lambda>x. x \<noteq> c) s]"
proof -
  have "split s c = (rev [] @ takeWhile (\<lambda>x. x \<noteq> c) s) #
       (case dropWhile (\<lambda>x. x \<noteq> c) s of [] \<Rightarrow> [] | y # rest \<Rightarrow> split_acc c [] rest)"
    unfolding split_def by (rule split_acc_eq)
  then show ?thesis unfolding assms by simp
qed

lemma split_colon:
  assumes "dropWhile (\<lambda>x. x \<noteq> c) s = y # rest"
  shows "\<exists>more. split s c = takeWhile (\<lambda>x. x \<noteq> c) s # takeWhile (\<lambda>x. x \<noteq> c) rest # more"
proof -
  have "split s c = (rev [] @ takeWhile (\<lambda>x. x \<noteq> c) s) #
       (case dropWhile (\<lambda>x. x \<noteq> c) s of [] \<Rightarrow> [] | y # rest \<Rightarrow> split_acc c [] rest)"
    unfolding split_def by (rule split_acc_eq)
  then have "split s c = takeWhile (\<lambda>x. x \<noteq> c) s # split_acc c [] rest"
    unfolding assms by simp
  moreover have "split_acc c [] rest = (rev [] @ takeWhile (\<lambda>x. x \<noteq> c) rest) #
       (case dropWhile (\<lambda>x. x \<noteq> c) rest of [] \<Rightarrow> [] | y # r \<Rightarrow> split_acc c [] r)"
    by (rule split_acc_eq)
  ultimately show ?thesis by simp
qed

lemma split_address_parts:
  "\<exists>more. split_address a = before_colon a # before_colon (after_colon a) # more"
proof (cases "dropWhile (\<lambda>c. c \<noteq> CHR '':'') a")
  case Nil
  have "split a (CHR '':'') = [takeWhile (\<lambda>c. c \<noteq> CHR '':'') a]"
    using Nil by (rule split_no_colon)
  then show ?thesis
    unfolding split_address_def before_colon_def after_colon_def Nil by (simp add: Let_def)
next
  case (Cons y rest)
  obtain more where
    "split a (CHR '':'') =
       takeWhile (\<lambda>c. c \<noteq> CHR '':'') a # takeWhile (\<lambda>c. c \<noteq> CHR '':'') rest # more"
    using split_colon[OF Cons] by blast
  then show ?thesis
    unfolding split_address_def before_colon_def after_colon_def Cons by (simp add: Let_def)
qed

lemma index_split_address:
  "index (split_address a) 0 = Inr (before_colon a) \<and>
   index (split_address a) 1 = Inr (before_colon (after_colon a))"
proof -
  obtain more where "split_address a = before_colon a # before_colon (after_colon a) # more"
    using split_address_parts by blast
  then show ?thesis by (simp add: index_def)
qed

lemma index_map_Str: "index (map Str xs) i = map_sum id Str (index xs i)"
  by (simp add: index_def)

subsection \<open>The request context\<close>

lemma http_headers_other:
  "take 5 k \<noteq> ''HTTP_'' \<Longrightarrow> http_headers hs env k = env k"
  by (induction hs env rule: http_headers.induct) (auto simp: Let_def)

lemma build_environ_strings:
  assumes "forward_address v = AddrStr a" and "server_address rq = AddrStr b"
  shows "\<exists>env. build_environ rq r v = Inr env \<and>
     env ''REMOTE_ADDR'' = Some (Val (Str (before_colon a))) \<and>
     env ''REMOTE_PORT'' = Some (Val (Str (before_colon (after_colon a)))) \<and>
     env ''SERVER_NAME'' = Some (Val (Str (before_colon b))) \<and>
     env ''SERVER_PORT'' = Some (Val (Str (before_colon (after_colon b))))"
  using assms index_split_address[of a] index_split_address[of b]
  by (simp add: build_environ_def remote_addr_of_def server_addr_of_def Let_def
      index_map_Str http_headers_other)

subsection \<open>The constructor's loop\<close>

text \<open>One turn of the loop, by the kind of the header name.\<close>

lemma init_headers_Str:
  "init_headers ((Str name, v) # rest) (ch, hs) =
     (if is_hoppish name then
        (if strip (lower name) = ''transfer-encoding'' then
           (case v of
              Str val \<Rightarrow>
                init_headers rest
                  ((if strip (lower val) = ''chunked'' then True else ch),
                   hs @ [(strip name, strip val)])
            | _ \<Rightarrow> Inl AttributeError)
         else if strip (lower name) = ''connection'' then
           (case v of
              Str val \<Rightarrow>
                if strip (lower val) \<noteq> ''upgrade'' then init_headers rest (ch, hs)
                else init_headers rest (ch, hs @ [(strip name, strip val)])
            | _ \<Rightarrow> Inl AttributeError)
         else init_headers rest (ch, hs))
      else init_headers rest (ch, hs @ [(strip name, strip (py_str v))]))"
  by (cases v) (simp_all add: Let_def)

lemma init_headers_Obj:
  "init_headers ((Obj n, v) # rest) (ch, hs) = Inl (AssertionError (n @ '' is not a string''))"
  by simp

lemma init_headers_Tuple:
  "init_headers ((Tuple xs, v) # rest) (ch, hs) =
     Inl (case xs of [x] \<Rightarrow> AssertionError (x @ '' is not a string'') | _ \<Rightarrow> TypeError)"
  by (simp split: list.splits)

lemmas init_headers_name = init_headers_Str init_headers_Obj init_headers_Tuple

lemma init_headers_step:
  assumes "init_headers ((n, v) # rest) (ch, hs) = Inr res"
  shows "\<exists>ch1. init_headers rest
           (ch1, if retained (py_str n) v then hs @ [(strip (py_str n), strip (py_str v))]
                 else hs) = Inr res"
proof (cases n)
  case (Str name)
  show ?thesis
    using assms unfolding Str init_headers_Str
    by (cases v) (auto simp: retained_def split: if_splits)
next
  case (Obj x)
  then show ?thesis using assms by (simp only: init_headers_Obj) simp
next
  case (Tuple xs)
  then show ?thesis using assms by (simp only: init_headers_Tuple) simp
qed

lemma init_headers_retained:
  "init_headers hdrs (ch, hs) = Inr (ch', hs') \<Longrightarrow>
     hs' = hs @ map (\<lambda>(n, v). (strip (py_str n), strip (py_str v)))
                   (filter (\<lambda>(n, v). retained (py_str n) v) hdrs)"
proof (induction hdrs arbitrary: ch hs)
  case Nil
  then show ?case by simp
next
  case (Cons h hdrs)
  obtain n v where h: "h = (n, v)" by (cases h)
  obtain ch1 where
    "init_headers hdrs
       (ch1, if retained (py_str n) v then hs @ [(strip (py_str n), strip (py_str v))]
             else hs) = Inr (ch', hs')"
    using init_headers_step[of n v hdrs ch hs "(ch', hs')"] Cons.prems unfolding h by blast
  from Cons.IH[OF this] show ?case unfolding h by simp
qed

lemma init_headers_not_reraised: "init_headers hdrs (ch, hs) \<noteq> Inl (Reraised x)"
proof (induction hdrs arbitrary: ch hs)
  case Nil
  then show ?case by simp
next
  case (Cons h hdrs)
  obtain n v where h: "h = (n, v)" by (cases h)
  show ?case
  proof (cases n)
    case (Str name)
    show ?thesis
      using Cons.IH unfolding h Str init_headers_Str
      by (cases v) (auto split: if_splits)
  next
    case (Obj y)
    then show ?thesis unfolding h by (simp only: init_headers_Obj) simp
  next
    case (Tuple xs)
    then show ?thesis unfolding h by (simp only: init_headers_Tuple) (simp split: list.splits)
  qed
qed

lemma install_response_not_reraised: "install_response rq st hdrs \<noteq> Inl (Reraised x)"
  using init_headers_not_reraised[of hdrs False "[]" x]
  by (auto simp: install_response_def Response_init_def split: sum.splits prod.splits)

lemma init_headers_chunked_mono:
  "init_headers hdrs (True, hs) = Inr (ch', hs') \<Longrightarrow> ch'"
proof (induction hdrs arbitrary: hs)
  case Nil
  then show ?case by simp
next
  case (Cons h hdrs)
  obtain n v where h: "h = (n, v)" by (cases h)
  show ?case
  proof (cases n)
    case (Str name)
    show ?thesis
      using Cons.prems Cons.IH unfolding h Str init_headers_Str
      by (cases v) (auto split: if_splits)
  next
    case (Obj x)
    then show ?thesis using Cons.prems unfolding h by (simp only: init_headers_Obj) simp
  next
    case (Tuple xs)
    then show ?thesis using Cons.prems unfolding h by (simp only: init_headers_Tuple) simp
  qed
qed

lemma init_headers_chunked:
  "init_headers hdrs (ch, hs) = Inr (ch', hs') \<Longrightarrow> (Str name, Str val) \<in> set hdrs \<Longrightarrow>
   is_hoppish name \<Longrightarrow> strip (lower name) = ''transfer-encoding'' \<Longrightarrow>
   strip (lower val) = ''chunked'' \<Longrightarrow> ch'"
proof (induction hdrs arbitrary: ch hs)
  case Nil
  then show ?case by simp
next
  case (Cons h hdrs)
  obtain n v where h: "h = (n, v)" by (cases h)
  show ?case
  proof (cases "h = (Str name, Str val)")
    case True
    with Cons.prems show ?thesis
      by (simp only: init_headers_Str) (auto dest: init_headers_chunked_mono)
  next
    case False
    with Cons.prems have mem: "(Str name, Str val) \<in> set hdrs" by simp
    note IH = Cons.IH[OF _ mem Cons.prems(3,4,5)]
    show ?thesis
    proof (cases n)
      case (Str nm)
      show ?thesis
        using Cons.prems(1) IH unfolding h Str init_headers_Str
        by (cases v) (auto split: if_splits)
    next
      case (Obj x)
      then show ?thesis using Cons.prems(1) unfolding h by (simp only: init_headers_Obj) simp
    next
      case (Tuple xs)
      then show ?thesis using Cons.prems(1) unfolding h by (simp only: init_headers_Tuple) simp
    qed
  qed
qed

lemma Response_init_headers:
  assumes "Response_init c rq st hdrs = Inr r"
  shows "headers r = map (\<lambda>(n, v). (strip (py_str n), strip (py_str v)))
                         (filter (\<lambda>(n, v). retained (py_str n) v) hdrs)"
proof -
  obtain ch hs where i: "init_headers hdrs (False, []) = Inr (ch, hs)" and "headers r = hs"
    using assms by (auto simp: Response_init_def split: sum.splits prod.splits)
  then show ?thesis using init_headers_retained[OF i] by simp
qed


subsection \<open>Case and whitespace\<close>

lemma is_space_lower_char: "is_space (lower_char c) = is_space c"
  by (auto simp: lower_char_def upper_letters_def lower_letters_def is_space_def
      split: option.splits if_splits)

lemma lower_dropWhile: "lower (dropWhile is_space s) = dropWhile is_space (lower s)"
  by (induction s) (simp_all add: lower_def is_space_lower_char)

lemma lower_strip: "lower (strip s) = strip (lower s)"
proof -
  have r: "lower (rev t) = rev (lower t)" for t by (simp add: lower_def rev_map)
  show ?thesis unfolding strip_def by (simp only: r lower_dropWhile)
qed

lemma is_hoppish_strip_lower: "is_hoppish n \<Longrightarrow> strip (lower n) = lower n"
  by (auto simp: is_hoppish_def hop_headers_def strip_def is_space_def)

lemma emitted_hop_by_hop:
  assumes init: "Response_init c rq st hdrs = Inr r"
    and unpadded: "\<forall>(n, v) \<in> set hdrs. strip (py_str n) = py_str n"
    and mem: "(n', v') \<in> set (headers r)"
    and hop: "is_hoppish n'"
  shows "lower n' = ''transfer-encoding'' \<or> (lower n' = ''connection'' \<and> lower v' = ''upgrade'')"
proof -
  from mem Response_init_headers[OF init]
  obtain n v where nv: "(n, v) \<in> set hdrs" and ret: "retained (py_str n) v"
    and n': "n' = strip (py_str n)" and v': "v' = strip (py_str v)"
    by auto
  from unpadded nv n' have eq: "n' = py_str n" by auto
  have sl: "strip (lower n') = lower n'" using hop by (rule is_hoppish_strip_lower)
  from ret hop have
    "strip (lower n') = ''transfer-encoding'' \<or>
     (strip (lower n') = ''connection'' \<and> strip (lower (py_str v)) = ''upgrade'')"
    unfolding eq retained_def by (auto split: if_splits)
  then show ?thesis unfolding sl v' lower_strip by simp
qed

subsection \<open>Writing on a transport that accepts every call\<close>

lemma sock_send_ok:
  "faults sock = [] \<Longrightarrow> sock_send sock data = (None, sock\<lparr>sent := sent sock @ [data]\<rparr>)"
  by (simp add: sock_send_def)

lemma util_write_ok:
  "faults sock = [] \<Longrightarrow>
     util_write sock data ch =
       (None, sock\<lparr>sent := sent sock @ [if ch then chunk_frame data else data]\<rparr>)"
  by (simp add: util_write_def write_chunk_def sock_send_ok)

lemma send_headers_sent: "headers_sent r \<Longrightarrow> send_headers rq r = (None, rq, r)"
  by (simp add: send_headers_def)

lemma send_headers_ok:
  "\<not> headers_sent r \<Longrightarrow> faults (socket rq) = [] \<Longrightarrow> default_headers rq r = Inr dh \<Longrightarrow>
     send_headers rq r =
       (None, rq\<lparr>socket := (socket rq)\<lparr>sent := sent (socket rq) @ [header_block dh r]\<rparr>\<rparr>,
        r\<lparr>headers_sent := True\<rparr>)"
  by (simp add: send_headers_def util_write_ok)

lemma apply_op_sent:
  assumes "headers_sent r" and "faults (socket rq) = []"
  shows "snd (apply_op x (rq, r)) =
       (rq\<lparr>socket := (socket rq)\<lparr>sent := sent (socket rq) @ body_frames (chunked r) x\<rparr>\<rparr>, r)"
proof (cases x)
  case SendHeaders
  with assms show ?thesis by (simp add: send_headers_sent)
next
  case (Write arg)
  with assms show ?thesis
    by (cases arg) (simp_all add: Response_write_def send_headers_sent util_write_ok
        split: list.splits)
next
  case Close
  with assms show ?thesis
    by (simp add: Response_close_def write_chunk_def sock_send_ok)
qed

lemma run_ops_sent:
  "headers_sent r \<Longrightarrow> faults (socket rq) = [] \<Longrightarrow>
     run_ops ops (rq, r) =
       (rq\<lparr>socket := (socket rq)\<lparr>sent := sent (socket rq)
            @ concat (map (body_frames (chunked r)) ops)\<rparr>\<rparr>, r)"
proof (induction ops arbitrary: rq)
  case Nil
  then show ?case by simp
next
  case (Cons x xs)
  let ?rq1 = "rq\<lparr>socket := (socket rq)\<lparr>sent := sent (socket rq) @ body_frames (chunked r) x\<rparr>\<rparr>"
  have step: "snd (apply_op x (rq, r)) = (?rq1, r)"
    using Cons.prems by (rule apply_op_sent)
  have "run_ops xs (?rq1, r) =
      (?rq1\<lparr>socket := (socket ?rq1)\<lparr>sent := sent (socket ?rq1)
           @ concat (map (body_frames (chunked r)) xs)\<rparr>\<rparr>, r)"
    using Cons.prems by (intro Cons.IH) simp_all
  then show ?case by (simp add: step)
qed

lemma apply_op_first:
  assumes "\<not> headers_sent r" and "faults (socket rq) = []" and "default_headers rq r = Inr dh"
  shows "snd (apply_op x (rq, r)) =
       (rq\<lparr>socket := (socket rq)\<lparr>sent := sent (socket rq) @ [header_block dh r]
            @ body_frames (chunked r) x\<rparr>\<rparr>,
        r\<lparr>headers_sent := True\<rparr>)"
proof (cases x)
  case SendHeaders
  with assms show ?thesis by (simp add: send_headers_ok)
next
  case (Write arg)
  with assms show ?thesis
    by (cases arg) (simp_all add: Response_write_def send_headers_ok util_write_ok
        split: list.splits)
next
  case Close
  with assms show ?thesis
    by (simp add: Response_close_def send_headers_ok write_chunk_def sock_send_ok)
qed

lemma chunk_frame_hello: "chunk_frame ''hello'' = ''5'' @ CRLF @ ''hello'' @ CRLF"
  by (simp add: chunk_frame_def hex_digit_def)

lemma chunk_frame_empty: "chunk_frame [] = ''0'' @ CRLF @ CRLF"
  by (simp add: chunk_frame_def hex_digit_def)

subsection \<open>Writing on any transport\<close>

lemma sock_send_cases:
  "sock_send sock d = (e, sock') \<Longrightarrow>
     (e = None \<and> sent sock' = sent sock @ [d]) \<or> (e \<noteq> None \<and> sent sock' = sent sock)"
  by (auto simp: sock_send_def split: list.splits option.splits)

lemma util_write_cases:
  "util_write sock d ch = (e, sock') \<Longrightarrow>
     (e = None \<and> sent sock' = sent sock @ [if ch then chunk_frame d else d]) \<or>
     (e \<noteq> None \<and> sent sock' = sent sock)"
  using sock_send_cases[of sock "if ch then chunk_frame d else d" e sock']
  by (auto simp: util_write_def write_chunk_def split: if_splits)

lemma default_headers_frame:
  "default_headers (rq\<lparr>socket := s\<rparr>) (r\<lparr>headers_sent := b\<rparr>) = default_headers rq r"
  by (simp add: default_headers_def Response_default_headers_def
      KeepAliveResponse_default_headers_def Let_def split: response_class.splits option.splits)

lemma header_block_frame: "header_block dh (r\<lparr>headers_sent := b\<rparr>) = header_block dh r"
  by (simp add: header_block_def)

lemma send_headers_step:
  assumes "default_headers rq r = Inr dh"
  shows "\<exists>e sock b. send_headers rq r = (e, rq\<lparr>socket := sock\<rparr>, r\<lparr>headers_sent := b\<rparr>) \<and>
     (headers_sent r \<longrightarrow> b) \<and> (e = None \<longrightarrow> b) \<and>
     sent sock = sent (socket rq) @ (if b \<and> \<not> headers_sent r then [header_block dh r] else [])"
proof (cases "headers_sent r")
  case True
  have "send_headers rq r = (None, rq\<lparr>socket := socket rq\<rparr>, r\<lparr>headers_sent := True\<rparr>)"
    using True by (simp add: send_headers_def)
  then show ?thesis
    using True by (intro exI[of _ None] exI[of _ "socket rq"] exI[of _ True]) simp
next
  case False
  obtain e1 s1 where w: "util_write (socket rq) (header_block dh r) False = (e1, s1)"
    by (cases "util_write (socket rq) (header_block dh r) False") auto
  show ?thesis
  proof (cases e1)
    case None
    have "send_headers rq r = (None, rq\<lparr>socket := s1\<rparr>, r\<lparr>headers_sent := True\<rparr>)"
      using assms False w None by (simp add: send_headers_def)
    moreover have "sent s1 = sent (socket rq) @ [header_block dh r]"
      using util_write_cases[OF w] None by simp
    ultimately show ?thesis
      using False by (intro exI[of _ None] exI[of _ s1] exI[of _ True]) simp
  next
    case (Some err)
    have "r\<lparr>headers_sent := False\<rparr> = r" using False by simp
    then have "send_headers rq r = (Some err, rq\<lparr>socket := s1\<rparr>, r\<lparr>headers_sent := False\<rparr>)"
      using assms False w Some by (simp add: send_headers_def)
    moreover have "sent s1 = sent (socket rq)"
      using util_write_cases[OF w] Some by simp
    ultimately show ?thesis
      using False by (intro exI[of _ "Some err"] exI[of _ s1] exI[of _ False]) simp
  qed
qed


lemma close_send_headers:
  "(if \<not> headers_sent r then send_headers rq r else (None, rq, r)) = send_headers rq r"
  by (simp add: send_headers_def)

lemma apply_op_step:
  assumes dh: "default_headers rq r = Inr dh"
  shows "\<exists>e sock b body.
     apply_op x (rq, r) = (e, rq\<lparr>socket := sock\<rparr>, r\<lparr>headers_sent := b\<rparr>) \<and>
     (headers_sent r \<longrightarrow> b) \<and> (body \<noteq> [] \<longrightarrow> b) \<and>
     set body \<subseteq> set (body_frames (chunked r) x) \<and>
     sent sock = sent (socket rq) @
        (if b \<and> \<not> headers_sent r then [header_block dh r] else []) @ body"
proof -
  obtain e1 s1 b1 where
    sh: "send_headers rq r = (e1, rq\<lparr>socket := s1\<rparr>, r\<lparr>headers_sent := b1\<rparr>)" and
    mono: "headers_sent r \<longrightarrow> b1" and ok: "e1 = None \<longrightarrow> b1" and
    wire: "sent s1 = sent (socket rq) @
        (if b1 \<and> \<not> headers_sent r then [header_block dh r] else [])"
    using send_headers_step[OF dh] by blast
  have no_body: ?thesis
    if "apply_op x (rq, r) = (e, rq\<lparr>socket := s1\<rparr>, r\<lparr>headers_sent := b1\<rparr>)" for e
    using that mono wire
    by (intro exI[of _ e] exI[of _ s1] exI[of _ b1] exI[of _ "[]"]) simp
  have with_body: ?thesis
    if ap: "apply_op x (rq, r) = (e, rq\<lparr>socket := s2\<rparr>, r\<lparr>headers_sent := True\<rparr>)"
      and b1: "b1" and s2: "sent s2 = sent s1 @ [f]" and f: "f \<in> set (body_frames (chunked r) x)"
    for e s2 f
  proof -
    have "sent s2 = sent (socket rq) @
        (if True \<and> \<not> headers_sent r then [header_block dh r] else []) @ [f]"
      using s2 wire b1 by simp
    then show ?thesis
      using ap f
      by (intro exI[of _ e] exI[of _ s2] exI[of _ True] exI[of _ "[f]"]) simp
  qed
  show ?thesis
  proof (cases x)
    case SendHeaders
    then show ?thesis using sh by (intro no_body[of e1]) simp
  next
    case (Write arg)
    show ?thesis
    proof (cases e1)
      case (Some err)
      then show ?thesis using sh Write by (intro no_body[of e1]) (simp add: Response_write_def)
    next
      case None
      then have b1: "b1" using ok by simp
      show ?thesis
      proof (cases arg)
        case (Obj y)
        then show ?thesis using sh Write None
          by (intro no_body[of "Some (AssertionError (y @ '' is not a string.''))"])
             (simp add: Response_write_def)
      next
        case (Tuple ys)
        then show ?thesis using sh Write None
          by (intro no_body[of "assert_basestring (Tuple ys) '' is not a string.''"])
             (simp add: Response_write_def split: list.splits)
      next
        case (Str data)
        obtain e2 s2 where w: "util_write s1 data (chunked r) = (e2, s2)"
          by (cases "util_write s1 data (chunked r)") auto
        have ap: "apply_op x (rq, r) = (e2, rq\<lparr>socket := s2\<rparr>, r\<lparr>headers_sent := b1\<rparr>)"
          using sh Write None Str w by (simp add: Response_write_def)
        from util_write_cases[OF w] show ?thesis
        proof
          assume a: "e2 = None \<and> sent s2 = sent s1 @ [if chunked r then chunk_frame data else data]"
          show ?thesis
            using ap b1 a Write Str
            by (intro with_body[of e2 s2 "if chunked r then chunk_frame data else data"]) simp_all
        next
          assume a: "e2 \<noteq> None \<and> sent s2 = sent s1"
          have "sent s2 = sent (socket rq) @
            (if b1 \<and> \<not> headers_sent r then [header_block dh r] else []) @ []"
            using a wire by simp
          then show ?thesis using ap mono
            by (intro exI[of _ e2] exI[of _ s2] exI[of _ b1] exI[of _ "[]"]) simp
        qed
      qed
    qed
  next
    case Close
    show ?thesis
    proof (cases e1)
      case (Some err)
      then show ?thesis using sh Close
        by (intro no_body[of e1]) (simp add: Response_close_def close_send_headers)
    next
      case None
      then have b1: "b1" using ok by simp
      show ?thesis
      proof (cases "chunked r")
        case False
        then show ?thesis using sh Close None
          by (intro no_body[of None]) (simp add: Response_close_def close_send_headers)
      next
        case True
        obtain e2 s2 where w: "sock_send s1 (chunk_frame []) = (e2, s2)"
          by (cases "sock_send s1 (chunk_frame [])") auto
        have ap: "apply_op x (rq, r) = (e2, rq\<lparr>socket := s2\<rparr>, r\<lparr>headers_sent := b1\<rparr>)"
          using sh Close None True w
          by (simp add: Response_close_def close_send_headers write_chunk_def)
        from sock_send_cases[OF w] show ?thesis
        proof
          assume a: "e2 = None \<and> sent s2 = sent s1 @ [chunk_frame []]"
          show ?thesis
            using ap b1 a Close True
            by (intro with_body[of e2 s2 "chunk_frame []"]) simp_all
        next
          assume a: "e2 \<noteq> None \<and> sent s2 = sent s1"
          have "sent s2 = sent (socket rq) @
            (if b1 \<and> \<not> headers_sent r then [header_block dh r] else []) @ []"
            using a wire by simp
          then show ?thesis using ap mono
            by (intro exI[of _ e2] exI[of _ s2] exI[of _ b1] exI[of _ "[]"]) simp
        qed
      qed
    qed
  qed
qed


lemma run_ops_wire:
  assumes "default_headers rq r = Inr dh"
  shows "\<exists>sock b body.
     run_ops ops (rq, r) = (rq\<lparr>socket := sock\<rparr>, r\<lparr>headers_sent := b\<rparr>) \<and>
     (headers_sent r \<longrightarrow> b) \<and> (body \<noteq> [] \<longrightarrow> b) \<and>
     set body \<subseteq> (\<Union>x\<in>set ops. set (body_frames (chunked r) x)) \<and>
     sent sock = sent (socket rq) @
        (if b \<and> \<not> headers_sent r then [header_block dh r] else []) @ body"
  using assms
proof (induction ops arbitrary: rq r)
  case Nil
  show ?case
    by (intro exI[of _ "socket rq"] exI[of _ "headers_sent r"] exI[of _ "[]"]) simp
next
  case (Cons x xs)
  obtain e s1 b1 body1 where
    ap: "apply_op x (rq, r) = (e, rq\<lparr>socket := s1\<rparr>, r\<lparr>headers_sent := b1\<rparr>)" and
    mono1: "headers_sent r \<longrightarrow> b1" and nb1: "body1 \<noteq> [] \<longrightarrow> b1" and
    sub1: "set body1 \<subseteq> set (body_frames (chunked r) x)" and
    wire1: "sent s1 = sent (socket rq) @
        (if b1 \<and> \<not> headers_sent r then [header_block dh r] else []) @ body1"
    using apply_op_step[OF Cons.prems, of x] by blast
  let ?rq1 = "rq\<lparr>socket := s1\<rparr>" and ?r1 = "r\<lparr>headers_sent := b1\<rparr>"
  have dh1: "default_headers ?rq1 ?r1 = Inr dh"
    using Cons.prems by (simp add: default_headers_frame)
  obtain s2 b2 body2 where
    run: "run_ops xs (?rq1, ?r1) = (?rq1\<lparr>socket := s2\<rparr>, ?r1\<lparr>headers_sent := b2\<rparr>)" and
    mono2: "headers_sent ?r1 \<longrightarrow> b2" and nb2: "body2 \<noteq> [] \<longrightarrow> b2" and
    sub2: "set body2 \<subseteq> (\<Union>x\<in>set xs. set (body_frames (chunked ?r1) x))" and
    wire2: "sent s2 = sent (socket ?rq1) @
        (if b2 \<and> \<not> headers_sent ?r1 then [header_block dh ?r1] else []) @ body2"
    using Cons.IH[OF dh1] by blast
  have a: "run_ops (x # xs) (rq, r) = (rq\<lparr>socket := s2\<rparr>, r\<lparr>headers_sent := b2\<rparr>)"
    using ap run by simp
  have b: "headers_sent r \<longrightarrow> b2" using mono1 mono2 by simp
  have c: "body1 @ body2 \<noteq> [] \<longrightarrow> b2" using nb1 nb2 mono2 by auto
  have d: "set (body1 @ body2) \<subseteq> (\<Union>x\<in>set (x # xs). set (body_frames (chunked r) x))"
    using sub1 sub2 by auto
  have e: "sent s2 = sent (socket rq) @
        (if b2 \<and> \<not> headers_sent r then [header_block dh r] else []) @ (body1 @ body2)"
  proof (cases b1)
    case True
    then show ?thesis using wire1 wire2 mono2 by (simp add: header_block_frame)
  next
    case False
    then have "body1 = []" and "\<not> headers_sent r" using nb1 mono1 by auto
    then show ?thesis using wire1 wire2 False by (simp add: header_block_frame)
  qed
  from a b c d e show ?case
    by (intro exI[of _ s2] exI[of _ b2] exI[of _ "body1 @ body2"]) blast
qed

section \<open>The claims\<close>

subsection \<open>C1: the forwarded address\<close>

text \<open>
  Claim C1 says that with a comma-separated \<^verbatim>\<open>X-Forwarded-For\<close> the address used for
  \<^verbatim>\<open>REMOTE_ADDR\<close> is the last token, trimmed. \<^verbatim>\<open>read\<close> computes that token and
  assigns it to \<^verbatim>\<open>forward_adress\<close>, a name that differs by one letter from
  \<^verbatim>\<open>forward_address\<close>, from which \<^verbatim>\<open>remote_addr\<close> is then split. On the header of
  the claim the context therefore holds the whole header value as \<^verbatim>\<open>REMOTE_ADDR\<close>, not
  \<^verbatim>\<open>203.0.113.5\<close>, which is what the expression assigned to \<^verbatim>\<open>forward_adress\<close> gives.
\<close>

theorem forwarded_for_not_reduced:
  "map_sum id (\<lambda>env. (env ''REMOTE_ADDR'', env ''REMOTE_PORT''))
     (fst (Request_read (example_request\<lparr>parser :=
        [Inr (Some (example_parsed
           [(''X-Forwarded-For'', ''10.0.0.1, 10.0.0.2, 203.0.113.5'')]))]\<rparr>))) =
   Inr (Some (Val (Str ''10.0.0.1, 10.0.0.2, 203.0.113.5'')), Some (Val (Str []))) \<and>
   strip (last (split ''10.0.0.1, 10.0.0.2, 203.0.113.5'' (CHR '',''))) = ''203.0.113.5''"
  by (simp add: read_defs example_request_def example_parsed_def text_defs)

subsection \<open>C2: \<^verbatim>\<open>Transfer-Encoding: chunked\<close>\<close>

text \<open>
  Claim C2, as amended: when the constructor accepts a header list that holds a
  \<^verbatim>\<open>Transfer-Encoding\<close> header whose value is \<^verbatim>\<open>chunked\<close> (lower-cased and
  stripped), the chunked flag of the response is set, and the header stays in the
  outgoing list, name and value stripped. (The claim as written has the header dropped.)
\<close>

theorem transfer_encoding_chunked:
  assumes "Response_init c rq st hdrs = Inr r"
    and "(Str name, Str val) \<in> set hdrs"
    and "is_hoppish name"
    and "strip (lower name) = ''transfer-encoding''"
    and "strip (lower val) = ''chunked''"
  shows "chunked r \<and> (strip name, strip val) \<in> set (headers r)"
proof
  obtain ch hs where i: "init_headers hdrs (False, []) = Inr (ch, hs)" and "chunked r = ch"
    using assms(1) by (auto simp: Response_init_def split: sum.splits prod.splits)
  then show "chunked r" using init_headers_chunked[OF i assms(2-5)] by simp
next
  have "retained (py_str (Str name)) (Str val)"
    using assms(3,4) by (simp add: retained_def)
  then have "(strip (py_str (Str name)), strip (py_str (Str val))) \<in>
     set (map (\<lambda>(n, v). (strip (py_str n), strip (py_str v)))
            (filter (\<lambda>(n, v). retained (py_str n) v) hdrs))"
    using assms(2) by force
  then show "(strip name, strip val) \<in> set (headers r)"
    using Response_init_headers[OF assms(1)] by simp
qed

text \<open>The theorem at a list of two headers, the second \<^verbatim>\<open>Transfer-Encoding\<close> with the
  value \<^verbatim>\<open>" Chunked "\<close>.\<close>

theorem transfer_encoding_chunked_witness:
  "Response_init ResponseClass example_request ''200 OK''
     [(Str ''Content-Type'', Str ''text/plain''), (Str ''Transfer-Encoding'', Str '' Chunked '')] =
     Inr (example_response\<lparr>chunked := True,
            headers := [(''Content-Type'', ''text/plain''), (''Transfer-Encoding'', ''Chunked'')]\<rparr>) \<and>
   (Str ''Transfer-Encoding'', Str '' Chunked '') \<in>
     set [(Str ''Content-Type'', Str ''text/plain''), (Str ''Transfer-Encoding'', Str '' Chunked '')] \<and>
   is_hoppish ''Transfer-Encoding'' \<and>
   strip (lower ''Transfer-Encoding'') = ''transfer-encoding'' \<and>
   strip (lower '' Chunked '') = ''chunked'' \<and>
   chunked (example_response\<lparr>chunked := True,
            headers := [(''Content-Type'', ''text/plain''), (''Transfer-Encoding'', ''Chunked'')]\<rparr>) \<and>
   (strip ''Transfer-Encoding'', strip '' Chunked '') \<in>
     set (headers (example_response\<lparr>chunked := True,
            headers := [(''Content-Type'', ''text/plain''), (''Transfer-Encoding'', ''Chunked'')]\<rparr>))"
proof -
  let ?hdrs = "[(Str ''Content-Type'', Str ''text/plain''),
                (Str ''Transfer-Encoding'', Str '' Chunked '')]"
  let ?r = "example_response\<lparr>chunked := True,
            headers := [(''Content-Type'', ''text/plain''), (''Transfer-Encoding'', ''Chunked'')]\<rparr>"
  have h1: "Response_init ResponseClass example_request ''200 OK'' ?hdrs = Inr ?r"
    by (simp add: Response_init_def example_request_def example_response_def text_defs)
  have h2: "(Str ''Transfer-Encoding'', Str '' Chunked '') \<in> set ?hdrs" by simp
  have h3: "is_hoppish ''Transfer-Encoding''" by (simp add: text_defs)
  have h4: "strip (lower ''Transfer-Encoding'') = ''transfer-encoding''" by (simp add: text_defs)
  have h5: "strip (lower '' Chunked '') = ''chunked''" by (simp add: text_defs)
  show ?thesis
    using transfer_encoding_chunked[OF h1 h2 h3 h4 h5] h1 h2 h3 h4 h5 by simp
qed

text \<open>Against the claim as written: constructed from the single header
  \<^verbatim>\<open>Transfer-Encoding: chunked\<close>, the response keeps it in its header list, and
  \<^verbatim>\<open>send_headers\<close> writes it on the wire.\<close>

theorem transfer_encoding_echoed:
  "Response_init ResponseClass example_request ''200 OK''
     [(Str ''Transfer-Encoding'', Str ''chunked'')] =
     Inr (example_response\<lparr>chunked := True, headers := [(''Transfer-Encoding'', ''chunked'')]\<rparr>) \<and>
   fst (snd (send_headers example_request
     (example_response\<lparr>chunked := True, headers := [(''Transfer-Encoding'', ''chunked'')]\<rparr>))) =
     example_request\<lparr>socket := \<lparr>sent =
       [''HTTP/1.1 200 OK'' @ CRLF @ ''Server: gunicorn/0.5'' @ CRLF @
        ''Date: Thu, 01 Jan 1970 00:00:00 GMT'' @ CRLF @ ''Connection: close'' @ CRLF @
        ''Transfer-Encoding: chunked'' @ CRLF @ CRLF], faults = []\<rparr>\<rparr>"
  by (simp add: Response_init_def example_request_def example_response_def text_defs send_defs)

subsection \<open>C3: a body chunk that is not text\<close>

text \<open>
  Claim C3, as amended: \<^verbatim>\<open>write\<close> of a value that is not text always raises and
  leaves the session and the response exactly as \<^verbatim>\<open>send_headers\<close> alone leaves them,
  so no body bytes are written. What it raises is the failure of \<^verbatim>\<open>send_headers\<close> if
  that fails, and otherwise what the assertion raises: \<^verbatim>\<open>AssertionError\<close>, or
  \<^verbatim>\<open>TypeError\<close> when the value is a tuple of other than one element, for which the
  message of the assertion cannot be built. When the headers were already sent, nothing
  is written; when they were not, and the transport accepts the call, the header block
  is written by this call. (The claim as written has no header bytes written either;
  \<^verbatim>\<open>write\<close> sends the headers before it looks at its argument.)
\<close>

theorem write_non_text_rejected:
  "(\<not> is_basestring arg \<longrightarrow> assert_basestring arg '' is not a string.'' \<noteq> None) \<and>
   (assert_basestring arg '' is not a string.'' = Some err \<longrightarrow>
      \<not> is_basestring arg \<and>
      (\<forall>x. arg = Obj x \<longrightarrow> err = AssertionError (x @ '' is not a string.'')) \<and>
      (\<forall>x. arg = Tuple [x] \<longrightarrow> err = AssertionError (x @ '' is not a string.'')) \<and>
      (\<forall>xs. arg = Tuple xs \<and> length xs \<noteq> 1 \<longrightarrow> err = TypeError) \<and>
      snd (Response_write rq r arg) = snd (send_headers rq r) \<and>
      fst (Response_write rq r arg) =
        (case fst (send_headers rq r) of Some e \<Rightarrow> Some e | None \<Rightarrow> Some err) \<and>
      (headers_sent r \<longrightarrow> Response_write rq r arg = (Some err, rq, r)) \<and>
      (\<not> headers_sent r \<and> faults (socket rq) = [] \<and> default_headers rq r = Inr dh \<longrightarrow>
         Response_write rq r arg =
           (Some err,
            rq\<lparr>socket := (socket rq)\<lparr>sent := sent (socket rq) @ [header_block dh r]\<rparr>\<rparr>,
            r\<lparr>headers_sent := True\<rparr>)))"
proof (intro conjI impI)
  assume "\<not> is_basestring arg"
  then show "assert_basestring arg '' is not a string.'' \<noteq> None"
    by (cases arg) (simp_all split: list.splits)
next
  assume a: "assert_basestring arg '' is not a string.'' = Some err"
  obtain e rq1 r1 where s: "send_headers rq r = (e, rq1, r1)"
    by (cases "send_headers rq r") auto
  show "\<not> is_basestring arg" using a by (cases arg) simp_all
  show "\<forall>x. arg = Obj x \<longrightarrow> err = AssertionError (x @ '' is not a string.'')"
    using a by auto
  show "\<forall>x. arg = Tuple [x] \<longrightarrow> err = AssertionError (x @ '' is not a string.'')"
    using a by auto
  show "\<forall>xs. arg = Tuple xs \<and> length xs \<noteq> 1 \<longrightarrow> err = TypeError"
    using a by (auto split: list.splits)
  show "snd (Response_write rq r arg) = snd (send_headers rq r)"
    unfolding Response_write_def s a by (cases e) simp_all
  show "fst (Response_write rq r arg) =
        (case fst (send_headers rq r) of Some e \<Rightarrow> Some e | None \<Rightarrow> Some err)"
    unfolding Response_write_def s a by (cases e) simp_all
  show "Response_write rq r arg = (Some err, rq, r)" if "headers_sent r"
    unfolding Response_write_def send_headers_sent[OF that] a by simp
  show "Response_write rq r arg =
           (Some err,
            rq\<lparr>socket := (socket rq)\<lparr>sent := sent (socket rq) @ [header_block dh r]\<rparr>\<rparr>,
            r\<lparr>headers_sent := True\<rparr>)"
    if h: "\<not> headers_sent r \<and> faults (socket rq) = [] \<and> default_headers rq r = Inr dh"
  proof -
    have "send_headers rq r =
       (None, rq\<lparr>socket := (socket rq)\<lparr>sent := sent (socket rq) @ [header_block dh r]\<rparr>\<rparr>,
        r\<lparr>headers_sent := True\<rparr>)"
      using h by (intro send_headers_ok) simp_all
    then show ?thesis unfolding Response_write_def a by simp
  qed
qed

text \<open>The theorem at \<^verbatim>\<open>write((1, 2))\<close> on a fresh response and an empty transport that
  accepts every call, at \<^verbatim>\<open>write(42)\<close> on a response whose headers are sent, and at
  \<^verbatim>\<open>write((1,))\<close>.\<close>

theorem write_non_text_rejected_witness:
  "\<not> is_basestring (Tuple [''1'', ''2'']) \<and>
   assert_basestring (Tuple [''1'', ''2'']) '' is not a string.'' = Some TypeError \<and>
   Tuple [''1'', ''2''] = Tuple [''1'', ''2''] \<and> length [''1'', ''2''] \<noteq> 1 \<and>
   \<not> headers_sent example_response \<and> faults (socket example_request) = [] \<and>
   default_headers example_request example_response =
     Inr [''HTTP/1.1 200 OK'' @ CRLF, ''Server: gunicorn/0.5'' @ CRLF,
          ''Date: Thu, 01 Jan 1970 00:00:00 GMT'' @ CRLF, ''Connection: close'' @ CRLF] \<and>
   Response_write example_request example_response (Tuple [''1'', ''2'']) =
     (Some TypeError,
      example_request\<lparr>socket := \<lparr>sent =
        [''HTTP/1.1 200 OK'' @ CRLF @ ''Server: gunicorn/0.5'' @ CRLF @
         ''Date: Thu, 01 Jan 1970 00:00:00 GMT'' @ CRLF @ ''Connection: close'' @ CRLF @
         ''Content-Type: text/plain'' @ CRLF @ CRLF], faults = []\<rparr>\<rparr>,
      example_response\<lparr>headers_sent := True\<rparr>) \<and>
   assert_basestring (Obj ''42'') '' is not a string.'' =
     Some (AssertionError ''42 is not a string.'') \<and>
   headers_sent (example_response\<lparr>headers_sent := True\<rparr>) \<and>
   Response_write example_request (example_response\<lparr>headers_sent := True\<rparr>) (Obj ''42'') =
     (Some (AssertionError ''42 is not a string.''), example_request,
      example_response\<lparr>headers_sent := True\<rparr>) \<and>
   assert_basestring (Tuple [''1'']) '' is not a string.'' =
     Some (AssertionError ''1 is not a string.'')"
proof -
  let ?t = "Tuple [''1'', ''2'']"
  let ?dh = "[''HTTP/1.1 200 OK'' @ CRLF, ''Server: gunicorn/0.5'' @ CRLF,
          ''Date: Thu, 01 Jan 1970 00:00:00 GMT'' @ CRLF, ''Connection: close'' @ CRLF]"
  let ?sent = "example_response\<lparr>headers_sent := True\<rparr>"
  have t1: "\<not> is_basestring ?t" by simp
  have t2: "assert_basestring ?t '' is not a string.'' = Some TypeError" by simp
  have t3: "\<not> headers_sent example_response" by (simp add: example_response_def)
  have t4: "faults (socket example_request) = []" by (simp add: example_request_def)
  have t5: "default_headers example_request example_response = Inr ?dh"
    by (simp add: default_headers_def Response_default_headers_def example_request_def
        example_response_def)
  have w1: "Response_write example_request example_response ?t =
      (Some TypeError,
       example_request\<lparr>socket := (socket example_request)\<lparr>sent :=
          sent (socket example_request) @ [header_block ?dh example_response]\<rparr>\<rparr>,
       example_response\<lparr>headers_sent := True\<rparr>)"
    using write_non_text_rejected[of ?t TypeError example_request example_response ?dh]
      t2 t3 t4 t5 by blast
  have hb: "header_block ?dh example_response =
       ''HTTP/1.1 200 OK'' @ CRLF @ ''Server: gunicorn/0.5'' @ CRLF @
       ''Date: Thu, 01 Jan 1970 00:00:00 GMT'' @ CRLF @ ''Connection: close'' @ CRLF @
       ''Content-Type: text/plain'' @ CRLF @ CRLF"
    by (simp add: header_block_def example_response_def)
  have sock: "example_request\<lparr>socket := (socket example_request)\<lparr>sent := xs\<rparr>\<rparr> =
       example_request\<lparr>socket := \<lparr>sent = xs, faults = []\<rparr>\<rparr>" for xs
    by (simp add: example_request_def)
  have s0: "sent (socket example_request) = []" by (simp add: example_request_def)
  have w1': "Response_write example_request example_response ?t =
      (Some TypeError,
       example_request\<lparr>socket := \<lparr>sent =
        [''HTTP/1.1 200 OK'' @ CRLF @ ''Server: gunicorn/0.5'' @ CRLF @
         ''Date: Thu, 01 Jan 1970 00:00:00 GMT'' @ CRLF @ ''Connection: close'' @ CRLF @
         ''Content-Type: text/plain'' @ CRLF @ CRLF], faults = []\<rparr>\<rparr>,
       example_response\<lparr>headers_sent := True\<rparr>)"
    unfolding w1 hb s0 sock by simp
  have o1: "assert_basestring (Obj ''42'') '' is not a string.'' =
      Some (AssertionError ''42 is not a string.'')" by simp
  have o2: "headers_sent ?sent" by simp
  have w2: "Response_write example_request ?sent (Obj ''42'') =
      (Some (AssertionError ''42 is not a string.''), example_request, ?sent)"
    using write_non_text_rejected[of "Obj ''42''" "AssertionError ''42 is not a string.''"
        example_request ?sent ?dh] o1 o2 by blast
  have u1: "assert_basestring (Tuple [''1'']) '' is not a string.'' =
      Some (AssertionError ''1 is not a string.'')" by simp
  from t1 t2 t3 t4 t5 w1' o1 o2 w2 u1 show ?thesis by simp
qed

text \<open>Against the claim as written: on a fresh response and an empty transport,
  \<^verbatim>\<open>write(42)\<close> raises the \<^verbatim>\<open>AssertionError\<close> after the header block has gone out.\<close>

theorem write_non_text_sends_headers:
  "sent (socket example_request) = [] \<and>
   \<not> headers_sent example_response \<and>
   Response_write example_request example_response (Obj ''42'') =
     (Some (AssertionError ''42 is not a string.''),
      example_request\<lparr>socket := \<lparr>sent =
        [''HTTP/1.1 200 OK'' @ CRLF @ ''Server: gunicorn/0.5'' @ CRLF @
         ''Date: Thu, 01 Jan 1970 00:00:00 GMT'' @ CRLF @ ''Connection: close'' @ CRLF @
         ''Content-Type: text/plain'' @ CRLF @ CRLF], faults = []\<rparr>\<rparr>,
      example_response\<lparr>headers_sent := True\<rparr>)"
  by (simp add: Response_write_def example_request_def example_response_def send_defs)

subsection \<open>C4: starting a response twice\<close>

text \<open>
  Claim C4, as amended: with a response already in the session, \<^verbatim>\<open>start_response\<close>
  without \<^verbatim>\<open>exc_info\<close> raises \<^verbatim>\<open>AssertionError\<close>; with \<^verbatim>\<open>exc_info\<close> it raises the
  captured exception again exactly when that response has sent its headers. Otherwise
  the captured exception is dropped and the constructor runs on the new status and
  headers: when it accepts them, the response it builds takes the place of the old one;
  when it rejects them, what it raises leaves \<^verbatim>\<open>start_response\<close> and no response is
  installed. (The claim as written has a fresh response installed whenever the captured
  exception is dropped.)
\<close>

theorem start_response_twice:
  "(response rq = Some r \<longrightarrow>
      start_response rq st hdrs None = Inl (AssertionError ''Response headers already set!'')) \<and>
   (response rq = Some r \<longrightarrow>
      (start_response rq st hdrs (Some x) = Inl (Reraised x)) = headers_sent r) \<and>
   (response rq = Some r \<and> \<not> headers_sent r \<and>
    Response_init (RESPONSE_CLASS rq) rq st hdrs = Inr r' \<longrightarrow>
      start_response rq st hdrs (Some x) = Inr (rq\<lparr>response := Some r'\<rparr>)) \<and>
   (response rq = Some r \<and> \<not> headers_sent r \<and>
    Response_init (RESPONSE_CLASS rq) rq st hdrs = Inl e \<longrightarrow>
      start_response rq st hdrs (Some x) = Inl e)"
  using install_response_not_reraised[of rq st hdrs x]
  by (auto simp: start_response_def install_response_def)

text \<open>The theorem at a session that holds a response with unsent headers, with a header
  list that the constructor accepts and with one that it rejects, and at a session that
  holds a response with sent headers.\<close>

theorem start_response_twice_witness:
  "response (example_request\<lparr>response := Some example_response\<rparr>) = Some example_response \<and>
   \<not> headers_sent example_response \<and>
   Response_init (RESPONSE_CLASS example_request)
     (example_request\<lparr>response := Some example_response\<rparr>) ''500 Error'' [] =
     Inr (example_response\<lparr>status := ''500 Error'', headers := []\<rparr>) \<and>
   start_response (example_request\<lparr>response := Some example_response\<rparr>) ''500 Error'' [] None =
     Inl (AssertionError ''Response headers already set!'') \<and>
   start_response (example_request\<lparr>response := Some example_response\<rparr>) ''500 Error'' []
     (Some ''ValueError'') \<noteq> Inl (Reraised ''ValueError'') \<and>
   start_response (example_request\<lparr>response := Some example_response\<rparr>) ''500 Error'' []
     (Some ''ValueError'') =
     Inr (example_request\<lparr>response :=
            Some (example_response\<lparr>status := ''500 Error'', headers := []\<rparr>)\<rparr>) \<and>
   response (example_request\<lparr>response := Some (example_response\<lparr>headers_sent := True\<rparr>)\<rparr>) =
     Some (example_response\<lparr>headers_sent := True\<rparr>) \<and>
   start_response (example_request\<lparr>response := Some (example_response\<lparr>headers_sent := True\<rparr>)\<rparr>)
     ''500 Error'' [] (Some ''ValueError'') = Inl (Reraised ''ValueError'') \<and>
   Response_init (RESPONSE_CLASS example_request)
     (example_request\<lparr>response := Some example_response\<rparr>) ''500 Error''
     [(Tuple [''1'', ''2''], Str ''x'')] = Inl TypeError \<and>
   start_response (example_request\<lparr>response := Some example_response\<rparr>) ''500 Error''
     [(Tuple [''1'', ''2''], Str ''x'')] (Some ''ValueError'') = Inl TypeError"
proof -
  let ?rq = "example_request\<lparr>response := Some example_response\<rparr>"
  let ?r' = "example_response\<lparr>status := ''500 Error'', headers := []\<rparr>"
  let ?rs = "example_response\<lparr>headers_sent := True\<rparr>"
  let ?rqs = "example_request\<lparr>response := Some ?rs\<rparr>"
  let ?bad = "[(Tuple [''1'', ''2''], Str ''x'')]"
  have g1: "response ?rqs = Some ?rs" by simp
  have g2: "headers_sent ?rs" by simp
  note sent =
    start_response_twice[of ?rqs ?rs "''500 Error''" "[]" "''ValueError''" ?r' TypeError]
  have h1: "response ?rq = Some example_response" by simp
  have h2: "\<not> headers_sent example_response" by (simp add: example_response_def)
  have h3: "Response_init (RESPONSE_CLASS example_request) ?rq ''500 Error'' [] = Inr ?r'"
    by (simp add: Response_init_def example_request_def example_response_def)
  have h3': "Response_init (RESPONSE_CLASS ?rq) ?rq ''500 Error'' [] = Inr ?r'"
    using h3 by simp
  have b1: "Response_init (RESPONSE_CLASS example_request) ?rq ''500 Error'' ?bad = Inl TypeError"
    by (simp add: Response_init_def)
  have b1': "Response_init (RESPONSE_CLASS ?rq) ?rq ''500 Error'' ?bad = Inl TypeError"
    using b1 by simp
  have bad: "start_response ?rq ''500 Error'' ?bad (Some ''ValueError'') = Inl TypeError"
    using start_response_twice[of ?rq example_response "''500 Error''" ?bad "''ValueError''"
        ?r' TypeError] h1 h2 b1' by blast
  show ?thesis
    using start_response_twice[of ?rq example_response "''500 Error''" "[]" "''ValueError''"
        ?r' TypeError]
      sent g1 g2 h1 h2 h3 h3' b1 bad by simp
qed

text \<open>Against the claim as written: the session holds a response with unsent headers,
  \<^verbatim>\<open>start_response\<close> is called with \<^verbatim>\<open>exc_info\<close> and the header list \<^verbatim>\<open>[(1, "x")]\<close>; the
  captured exception is dropped, the constructor raises for the header name, and no
  fresh response is installed.\<close>

theorem start_response_rejected_headers:
  "response (example_request\<lparr>response := Some example_response\<rparr>) = Some example_response \<and>
   \<not> headers_sent example_response \<and>
   start_response (example_request\<lparr>response := Some example_response\<rparr>) ''500 Error''
     [(Obj ''1'', Str ''x'')] (Some ''ValueError'') =
     Inl (AssertionError ''1 is not a string'')"
  by (simp add: start_response_def install_response_def Response_init_def
      example_response_def)

subsection \<open>C5: the header block goes out once\<close>

text \<open>
  Claim C5: \<^verbatim>\<open>send_headers\<close> does nothing once the headers-sent flag is set. Whatever
  the transport does, a sequence of \<^verbatim>\<open>send_headers\<close>, \<^verbatim>\<open>write\<close> and \<^verbatim>\<open>close\<close> on a
  response changes only the transport and the flag, never clears the flag, and adds to
  the wire the header block, once, before anything else, exactly when it sets the flag,
  followed only by what the operations add as body. On a transport that accepts every
  call, any non-empty such sequence on a fresh response writes the header block once,
  then the body of every operation in order, and ends with the flag set.
\<close>

theorem header_block_written_once:
  "(headers_sent r \<longrightarrow> send_headers rq r = (None, rq, r)) \<and>
   (default_headers rq r = Inr dh \<longrightarrow>
      (\<exists>sock b body.
         run_ops ops (rq, r) = (rq\<lparr>socket := sock\<rparr>, r\<lparr>headers_sent := b\<rparr>) \<and>
         (headers_sent r \<longrightarrow> b) \<and> (body \<noteq> [] \<longrightarrow> b) \<and>
         set body \<subseteq> (\<Union>x\<in>set ops. set (body_frames (chunked r) x)) \<and>
         sent sock = sent (socket rq) @
           (if b \<and> \<not> headers_sent r then [header_block dh r] else []) @ body)) \<and>
   (\<not> headers_sent r \<and> faults (socket rq) = [] \<and> default_headers rq r = Inr dh \<and> ops \<noteq> [] \<longrightarrow>
      run_ops ops (rq, r) =
        (rq\<lparr>socket := (socket rq)\<lparr>sent := sent (socket rq) @ [header_block dh r]
             @ concat (map (body_frames (chunked r)) ops)\<rparr>\<rparr>,
         r\<lparr>headers_sent := True\<rparr>))"
proof (intro conjI impI)
  assume "headers_sent r"
  then show "send_headers rq r = (None, rq, r)" by (rule send_headers_sent)
next
  assume "default_headers rq r = Inr dh"
  then show "\<exists>sock b body.
         run_ops ops (rq, r) = (rq\<lparr>socket := sock\<rparr>, r\<lparr>headers_sent := b\<rparr>) \<and>
         (headers_sent r \<longrightarrow> b) \<and> (body \<noteq> [] \<longrightarrow> b) \<and>
         set body \<subseteq> (\<Union>x\<in>set ops. set (body_frames (chunked r) x)) \<and>
         sent sock = sent (socket rq) @
           (if b \<and> \<not> headers_sent r then [header_block dh r] else []) @ body"
    by (rule run_ops_wire)
next
  assume a: "\<not> headers_sent r \<and> faults (socket rq) = [] \<and> default_headers rq r = Inr dh \<and> ops \<noteq> []"
  then obtain x xs where ops: "ops = x # xs" by (cases ops) auto
  let ?rq1 = "rq\<lparr>socket := (socket rq)\<lparr>sent := sent (socket rq) @ [header_block dh r]
                 @ body_frames (chunked r) x\<rparr>\<rparr>"
  let ?r1 = "r\<lparr>headers_sent := True\<rparr>"
  have step: "snd (apply_op x (rq, r)) = (?rq1, ?r1)"
    using a by (intro apply_op_first) simp_all
  have "run_ops xs (?rq1, ?r1) =
      (?rq1\<lparr>socket := (socket ?rq1)\<lparr>sent := sent (socket ?rq1)
           @ concat (map (body_frames (chunked ?r1)) xs)\<rparr>\<rparr>, ?r1)"
    using a by (intro run_ops_sent) simp_all
  then show "run_ops ops (rq, r) =
        (rq\<lparr>socket := (socket rq)\<lparr>sent := sent (socket rq) @ [header_block dh r]
             @ concat (map (body_frames (chunked r)) ops)\<rparr>\<rparr>,
         r\<lparr>headers_sent := True\<rparr>)"
    by (simp add: ops step)
qed

text \<open>The theorem at a chunked response driven through \<^verbatim>\<open>write("hello")\<close>,
  \<^verbatim>\<open>send_headers()\<close>, \<^verbatim>\<open>write(7)\<close>, \<^verbatim>\<open>close()\<close>, at the response that results,
  and at an unchunked response on a transport whose first call fails with \<^verbatim>\<open>EPIPE\<close>: the
  first \<^verbatim>\<open>write\<close> raises and leaves nothing on the wire, the second sends the header block
  and the body.\<close>

theorem header_block_written_once_witness:
  "\<not> headers_sent (example_response\<lparr>chunked := True\<rparr>) \<and>
   faults (socket example_request) = [] \<and>
   default_headers example_request (example_response\<lparr>chunked := True\<rparr>) =
     Inr [''HTTP/1.1 200 OK'' @ CRLF, ''Server: gunicorn/0.5'' @ CRLF,
          ''Date: Thu, 01 Jan 1970 00:00:00 GMT'' @ CRLF, ''Connection: close'' @ CRLF] \<and>
   [Write (Str ''hello''), SendHeaders, Write (Obj ''7''), Close] \<noteq> [] \<and>
   run_ops [Write (Str ''hello''), SendHeaders, Write (Obj ''7''), Close]
       (example_request, example_response\<lparr>chunked := True\<rparr>) =
     (example_request\<lparr>socket := \<lparr>sent =
        [''HTTP/1.1 200 OK'' @ CRLF @ ''Server: gunicorn/0.5'' @ CRLF @
         ''Date: Thu, 01 Jan 1970 00:00:00 GMT'' @ CRLF @ ''Connection: close'' @ CRLF @
         ''Content-Type: text/plain'' @ CRLF @ CRLF,
         ''5'' @ CRLF @ ''hello'' @ CRLF,
         ''0'' @ CRLF @ CRLF], faults = []\<rparr>\<rparr>,
      example_response\<lparr>chunked := True, headers_sent := True\<rparr>) \<and>
   headers_sent (example_response\<lparr>chunked := True, headers_sent := True\<rparr>) \<and>
   send_headers example_request (example_response\<lparr>chunked := True, headers_sent := True\<rparr>) =
     (None, example_request, example_response\<lparr>chunked := True, headers_sent := True\<rparr>) \<and>
   default_headers (example_request\<lparr>socket := \<lparr>sent = [], faults = [Some 32]\<rparr>\<rparr>)
       example_response =
     Inr [''HTTP/1.1 200 OK'' @ CRLF, ''Server: gunicorn/0.5'' @ CRLF,
          ''Date: Thu, 01 Jan 1970 00:00:00 GMT'' @ CRLF, ''Connection: close'' @ CRLF] \<and>
   run_ops [Write (Str ''hello''), Write (Str ''hello''), Close]
       (example_request\<lparr>socket := \<lparr>sent = [], faults = [Some 32]\<rparr>\<rparr>, example_response) =
     (example_request\<lparr>socket := \<lparr>sent =
        [''HTTP/1.1 200 OK'' @ CRLF @ ''Server: gunicorn/0.5'' @ CRLF @
         ''Date: Thu, 01 Jan 1970 00:00:00 GMT'' @ CRLF @ ''Connection: close'' @ CRLF @
         ''Content-Type: text/plain'' @ CRLF @ CRLF,
         ''hello''], faults = []\<rparr>\<rparr>,
      example_response\<lparr>headers_sent := True\<rparr>) \<and>
   (\<exists>sock b body.
      run_ops [Write (Str ''hello''), Write (Str ''hello''), Close]
          (example_request\<lparr>socket := \<lparr>sent = [], faults = [Some 32]\<rparr>\<rparr>, example_response) =
        (example_request\<lparr>socket := \<lparr>sent = [], faults = [Some 32]\<rparr>\<rparr>\<lparr>socket := sock\<rparr>,
         example_response\<lparr>headers_sent := b\<rparr>) \<and>
      (headers_sent example_response \<longrightarrow> b) \<and> (body \<noteq> [] \<longrightarrow> b) \<and>
      set body \<subseteq> (\<Union>x\<in>set [Write (Str ''hello''), Write (Str ''hello''), Close].
                      set (body_frames (chunked example_response) x)) \<and>
      sent sock =
        sent (socket (example_request\<lparr>socket := \<lparr>sent = [], faults = [Some 32]\<rparr>\<rparr>)) @
        (if b \<and> \<not> headers_sent example_response
         then [header_block
                 [''HTTP/1.1 200 OK'' @ CRLF, ''Server: gunicorn/0.5'' @ CRLF,
                  ''Date: Thu, 01 Jan 1970 00:00:00 GMT'' @ CRLF, ''Connection: close'' @ CRLF]
                 example_response]
         else []) @ body)"
proof -
  let ?rqf = "example_request\<lparr>socket := \<lparr>sent = [], faults = [Some 32]\<rparr>\<rparr>"
  let ?opsf = "[Write (Str ''hello''), Write (Str ''hello''), Close]"
  let ?r = "example_response\<lparr>chunked := True\<rparr>"
  let ?dh = "[''HTTP/1.1 200 OK'' @ CRLF, ''Server: gunicorn/0.5'' @ CRLF,
          ''Date: Thu, 01 Jan 1970 00:00:00 GMT'' @ CRLF, ''Connection: close'' @ CRLF]"
  let ?ops = "[Write (Str ''hello''), SendHeaders, Write (Obj ''7''), Close]"
  have h1: "\<not> headers_sent ?r" by (simp add: example_response_def)
  have h2: "faults (socket example_request) = []" by (simp add: example_request_def)
  have h3: "default_headers example_request ?r = Inr ?dh"
    by (simp add: default_headers_def Response_default_headers_def example_request_def
        example_response_def)
  have h4: "?ops \<noteq> []" by simp
  have h5: "headers_sent (?r\<lparr>headers_sent := True\<rparr>)" by simp
  have run: "run_ops ?ops (example_request, ?r) =
      (example_request\<lparr>socket := (socket example_request)\<lparr>sent :=
           sent (socket example_request) @ [header_block ?dh ?r]
             @ concat (map (body_frames (chunked ?r)) ?ops)\<rparr>\<rparr>,
       ?r\<lparr>headers_sent := True\<rparr>)"
    using header_block_written_once[of ?r example_request ?dh ?ops] h1 h2 h3 h4 by blast
  have noop: "send_headers example_request (?r\<lparr>headers_sent := True\<rparr>) =
      (None, example_request, ?r\<lparr>headers_sent := True\<rparr>)"
    using header_block_written_once[of "?r\<lparr>headers_sent := True\<rparr>" example_request ?dh ?ops] h5
    by blast
  have hb: "header_block ?dh ?r =
       ''HTTP/1.1 200 OK'' @ CRLF @ ''Server: gunicorn/0.5'' @ CRLF @
       ''Date: Thu, 01 Jan 1970 00:00:00 GMT'' @ CRLF @ ''Connection: close'' @ CRLF @
       ''Content-Type: text/plain'' @ CRLF @ CRLF"
    by (simp add: header_block_def example_response_def)
  have frames: "concat (map (body_frames (chunked ?r)) ?ops) =
       [''5'' @ CRLF @ ''hello'' @ CRLF, ''0'' @ CRLF @ CRLF]"
    by (simp add: chunk_frame_hello chunk_frame_empty)
  have sock: "example_request\<lparr>socket := (socket example_request)\<lparr>sent := xs\<rparr>\<rparr> =
       example_request\<lparr>socket := \<lparr>sent = xs, faults = []\<rparr>\<rparr>" for xs
    by (simp add: example_request_def)
  have s0: "sent (socket example_request) = []" by (simp add: example_request_def)
  have wire: "run_ops ?ops (example_request, ?r) =
      (example_request\<lparr>socket := \<lparr>sent =
        [''HTTP/1.1 200 OK'' @ CRLF @ ''Server: gunicorn/0.5'' @ CRLF @
         ''Date: Thu, 01 Jan 1970 00:00:00 GMT'' @ CRLF @ ''Connection: close'' @ CRLF @
         ''Content-Type: text/plain'' @ CRLF @ CRLF,
         ''5'' @ CRLF @ ''hello'' @ CRLF,
         ''0'' @ CRLF @ CRLF], faults = []\<rparr>\<rparr>,
       ?r\<lparr>headers_sent := True\<rparr>)"
    unfolding run hb frames s0 sock by simp
  have f1: "default_headers ?rqf example_response = Inr ?dh"
    by (simp add: default_headers_def Response_default_headers_def example_request_def
        example_response_def)
  have f2: "run_ops ?opsf (?rqf, example_response) =
      (example_request\<lparr>socket := \<lparr>sent =
        [''HTTP/1.1 200 OK'' @ CRLF @ ''Server: gunicorn/0.5'' @ CRLF @
         ''Date: Thu, 01 Jan 1970 00:00:00 GMT'' @ CRLF @ ''Connection: close'' @ CRLF @
         ''Content-Type: text/plain'' @ CRLF @ CRLF,
         ''hello''], faults = []\<rparr>\<rparr>,
       example_response\<lparr>headers_sent := True\<rparr>)"
    by (simp add: Response_write_def Response_close_def example_request_def
        example_response_def send_defs)
  have f3: "\<exists>sock b body.
      run_ops ?opsf (?rqf, example_response) =
        (?rqf\<lparr>socket := sock\<rparr>, example_response\<lparr>headers_sent := b\<rparr>) \<and>
      (headers_sent example_response \<longrightarrow> b) \<and> (body \<noteq> [] \<longrightarrow> b) \<and>
      set body \<subseteq> (\<Union>x\<in>set ?opsf. set (body_frames (chunked example_response) x)) \<and>
      sent sock = sent (socket ?rqf) @
        (if b \<and> \<not> headers_sent example_response
         then [header_block ?dh example_response] else []) @ body"
    using header_block_written_once[of example_response ?rqf ?dh ?opsf] f1 by blast
  from h1 h2 h3 h4 h5 wire noop f1 f2 f3 show ?thesis by blast
qed

subsection \<open>C6: hop-by-hop headers\<close>

text \<open>
  Claim C6, as amended: the header list of a response that the constructor returns is
  the input list, in order, without the headers whose name, as given, is hop-by-hop,
  other than \<^verbatim>\<open>Transfer-Encoding\<close> (kept whatever its value) and
  \<^verbatim>\<open>Connection: upgrade\<close> (value lower-cased and stripped); each header kept has its name
  stripped and its value turned to text and stripped. So when no name in the input has
  whitespace around it, every header of the emitted list whose name is hop-by-hop is a
  \<^verbatim>\<open>Transfer-Encoding\<close> header or \<^verbatim>\<open>Connection: upgrade\<close>. (The claim as written keeps
  of \<^verbatim>\<open>Transfer-Encoding\<close> only the value \<^verbatim>\<open>chunked\<close>.)
\<close>

theorem hop_by_hop_filtered:
  "Response_init c rq st hdrs = Inr r \<Longrightarrow>
     headers r = map (\<lambda>(n, v). (strip (py_str n), strip (py_str v)))
                     (filter (\<lambda>(n, v). retained (py_str n) v) hdrs) \<and>
     ((\<forall>(n, v) \<in> set hdrs. strip (py_str n) = py_str n) \<longrightarrow>
        (\<forall>(n', v') \<in> set (headers r).
           is_hoppish n' \<longrightarrow>
             lower n' = ''transfer-encoding'' \<or>
             (lower n' = ''connection'' \<and> lower v' = ''upgrade'')))"
proof (intro conjI impI)
  assume init: "Response_init c rq st hdrs = Inr r"
  then show "headers r = map (\<lambda>(n, v). (strip (py_str n), strip (py_str v)))
                     (filter (\<lambda>(n, v). retained (py_str n) v) hdrs)"
    by (rule Response_init_headers)
  assume unpadded: "\<forall>(n, v) \<in> set hdrs. strip (py_str n) = py_str n"
  show "\<forall>(n', v') \<in> set (headers r).
           is_hoppish n' \<longrightarrow>
             lower n' = ''transfer-encoding'' \<or>
             (lower n' = ''connection'' \<and> lower v' = ''upgrade'')"
    using emitted_hop_by_hop[OF init unpadded] by blast
qed

text \<open>The theorem at a list that holds one header of each hop-by-hop kind but
  \<^verbatim>\<open>Proxy-Authorization\<close>, and two end-to-end headers.\<close>

theorem hop_by_hop_filtered_witness:
  "Response_init ResponseClass example_request ''200 OK''
     [(Str ''Content-Type'', Str ''text/plain''), (Str ''Keep-Alive'', Str ''timeout=5''),
      (Str ''Connection'', Str ''close''), (Str ''Connection'', Str '' Upgrade''),
      (Str ''Upgrade'', Str ''websocket''), (Str ''Proxy-Authenticate'', Str ''Basic''),
      (Str ''TE'', Str ''trailers''), (Str ''Trailers'', Str ''Expires''),
      (Str ''Transfer-Encoding'', Str ''gzip''), (Str ''X-Count'', Obj ''42'')] =
     Inr (example_response\<lparr>headers :=
       [(''Content-Type'', ''text/plain''), (''Connection'', ''Upgrade''),
        (''Transfer-Encoding'', ''gzip''), (''X-Count'', ''42'')]\<rparr>) \<and>
   list_all (\<lambda>(n, v). strip (py_str n) = py_str n)
     [(Str ''Content-Type'', Str ''text/plain''), (Str ''Keep-Alive'', Str ''timeout=5''),
      (Str ''Connection'', Str ''close''), (Str ''Connection'', Str '' Upgrade''),
      (Str ''Upgrade'', Str ''websocket''), (Str ''Proxy-Authenticate'', Str ''Basic''),
      (Str ''TE'', Str ''trailers''), (Str ''Trailers'', Str ''Expires''),
      (Str ''Transfer-Encoding'', Str ''gzip''), (Str ''X-Count'', Obj ''42'')] \<and>
   headers (example_response\<lparr>headers :=
       [(''Content-Type'', ''text/plain''), (''Connection'', ''Upgrade''),
        (''Transfer-Encoding'', ''gzip''), (''X-Count'', ''42'')]\<rparr>) =
     map (\<lambda>(n, v). (strip (py_str n), strip (py_str v)))
       (filter (\<lambda>(n, v). retained (py_str n) v)
         [(Str ''Content-Type'', Str ''text/plain''), (Str ''Keep-Alive'', Str ''timeout=5''),
          (Str ''Connection'', Str ''close''), (Str ''Connection'', Str '' Upgrade''),
          (Str ''Upgrade'', Str ''websocket''), (Str ''Proxy-Authenticate'', Str ''Basic''),
          (Str ''TE'', Str ''trailers''), (Str ''Trailers'', Str ''Expires''),
          (Str ''Transfer-Encoding'', Str ''gzip''), (Str ''X-Count'', Obj ''42'')]) \<and>
   list_all (\<lambda>(n', v'). lower n' = ''transfer-encoding'' \<or>
                         (lower n' = ''connection'' \<and> lower v' = ''upgrade''))
     (filter (\<lambda>(n', v'). is_hoppish n')
        (headers (example_response\<lparr>headers :=
           [(''Content-Type'', ''text/plain''), (''Connection'', ''Upgrade''),
            (''Transfer-Encoding'', ''gzip''), (''X-Count'', ''42'')]\<rparr>))) \<and>
   filter (\<lambda>(n', v'). is_hoppish n')
     (headers (example_response\<lparr>headers :=
        [(''Content-Type'', ''text/plain''), (''Connection'', ''Upgrade''),
         (''Transfer-Encoding'', ''gzip''), (''X-Count'', ''42'')]\<rparr>)) =
     [(''Connection'', ''Upgrade''), (''Transfer-Encoding'', ''gzip'')]"
proof -
  let ?hdrs = "[(Str ''Content-Type'', Str ''text/plain''), (Str ''Keep-Alive'', Str ''timeout=5''),
      (Str ''Connection'', Str ''close''), (Str ''Connection'', Str '' Upgrade''),
      (Str ''Upgrade'', Str ''websocket''), (Str ''Proxy-Authenticate'', Str ''Basic''),
      (Str ''TE'', Str ''trailers''), (Str ''Trailers'', Str ''Expires''),
      (Str ''Transfer-Encoding'', Str ''gzip''), (Str ''X-Count'', Obj ''42'')]"
  let ?r = "example_response\<lparr>headers :=
       [(''Content-Type'', ''text/plain''), (''Connection'', ''Upgrade''),
        (''Transfer-Encoding'', ''gzip''), (''X-Count'', ''42'')]\<rparr>"
  have h1: "Response_init ResponseClass example_request ''200 OK'' ?hdrs = Inr ?r"
    by (simp add: Response_init_def example_request_def example_response_def text_defs)
  have h2: "\<forall>(n, v) \<in> set ?hdrs. strip (py_str n) = py_str n"
    by (simp add: strip_def is_space_def)
  have h2': "list_all (\<lambda>(n, v). strip (py_str n) = py_str n) ?hdrs"
    using h2 unfolding list_all_iff .
  note filtered = hop_by_hop_filtered[OF h1]
  have c1: "headers ?r = map (\<lambda>(n, v). (strip (py_str n), strip (py_str v)))
       (filter (\<lambda>(n, v). retained (py_str n) v) ?hdrs)"
    using filtered by blast
  have "\<forall>(n', v') \<in> set (headers ?r).
           is_hoppish n' \<longrightarrow>
             lower n' = ''transfer-encoding'' \<or>
             (lower n' = ''connection'' \<and> lower v' = ''upgrade'')"
    using filtered h2 by blast
  then have c2: "list_all (\<lambda>(n', v'). lower n' = ''transfer-encoding'' \<or>
                         (lower n' = ''connection'' \<and> lower v' = ''upgrade''))
     (filter (\<lambda>(n', v'). is_hoppish n') (headers ?r))"
    unfolding list_all_iff by auto
  have c3: "filter (\<lambda>(n', v'). is_hoppish n') (headers ?r) =
     [(''Connection'', ''Upgrade''), (''Transfer-Encoding'', ''gzip'')]"
    by (simp add: text_defs)
  from h1 h2' c1 c2 c3 show ?thesis by blast
qed

text \<open>Against the claim as written: \<^verbatim>\<open>Transfer-Encoding: gzip\<close> is hop-by-hop, is
  neither of the two exceptions, and is in the header list of the response.\<close>

theorem transfer_encoding_gzip_kept:
  "is_hoppish ''Transfer-Encoding'' \<and>
   Response_init ResponseClass example_request ''200 OK''
     [(Str ''Transfer-Encoding'', Str ''gzip'')] =
     Inr (example_response\<lparr>headers := [(''Transfer-Encoding'', ''gzip'')]\<rparr>)"
  by (simp add: Response_init_def example_request_def example_response_def text_defs)

subsection \<open>C7: the \<^verbatim>\<open>Connection\<close> line of the keep-alive variant\<close>

text \<open>
  Claim C7: for a \<^verbatim>\<open>KeepAliveResponse\<close> in a session that holds a parsed request, the
  default header lines are the first three lines of the base variant followed by
  \<^verbatim>\<open>Connection: close\<close> when that request's \<^verbatim>\<open>should_close()\<close> is true and by
  \<^verbatim>\<open>Connection: keep-alive\<close> otherwise.
\<close>

theorem keepalive_connection_header:
  "cls r = KeepAliveResponseClass \<Longrightarrow> req rq = Some p \<Longrightarrow>
     default_headers rq r =
       Inr (take 3 (Response_default_headers rq r) @
            [''Connection: '' @ (if req_should_close p then ''close'' else ''keep-alive'') @ CRLF])"
  by (simp add: default_headers_def KeepAliveResponse_default_headers_def
      Response_default_headers_def)

text \<open>The theorem at a request that does not ask to close and at one that does.\<close>

theorem keepalive_connection_header_witness:
  "cls (example_response\<lparr>cls := KeepAliveResponseClass\<rparr>) = KeepAliveResponseClass \<and>
   req (example_request\<lparr>req := Some (example_parsed [])\<rparr>) = Some (example_parsed []) \<and>
   req (example_request\<lparr>req := Some ((example_parsed [])\<lparr>req_should_close := True\<rparr>)\<rparr>) =
     Some ((example_parsed [])\<lparr>req_should_close := True\<rparr>) \<and>
   default_headers (example_request\<lparr>req := Some (example_parsed [])\<rparr>)
       (example_response\<lparr>cls := KeepAliveResponseClass\<rparr>) =
     Inr [''HTTP/1.1 200 OK'' @ CRLF, ''Server: gunicorn/0.5'' @ CRLF,
          ''Date: Thu, 01 Jan 1970 00:00:00 GMT'' @ CRLF, ''Connection: keep-alive'' @ CRLF] \<and>
   default_headers (example_request\<lparr>req := Some ((example_parsed [])\<lparr>req_should_close := True\<rparr>)\<rparr>)
       (example_response\<lparr>cls := KeepAliveResponseClass\<rparr>) =
     Inr [''HTTP/1.1 200 OK'' @ CRLF, ''Server: gunicorn/0.5'' @ CRLF,
          ''Date: Thu, 01 Jan 1970 00:00:00 GMT'' @ CRLF, ''Connection: close'' @ CRLF]"
proof -
  let ?r = "example_response\<lparr>cls := KeepAliveResponseClass\<rparr>"
  let ?p = "example_parsed []"
  let ?q = "(example_parsed [])\<lparr>req_should_close := True\<rparr>"
  have h1: "cls ?r = KeepAliveResponseClass" by simp
  have h2: "req (example_request\<lparr>req := Some ?p\<rparr>) = Some ?p" by simp
  have h3: "req (example_request\<lparr>req := Some ?q\<rparr>) = Some ?q" by simp
  show ?thesis
    using keepalive_connection_header[OF h1 h2] keepalive_connection_header[OF h1 h3] h1 h2 h3
    by (simp add: Response_default_headers_def example_request_def example_response_def
        example_parsed_def)
qed

subsection \<open>C8: a reset connection ends the keep-alive session\<close>

text \<open>
  Claim C8: when \<^verbatim>\<open>Request.read\<close> raises \<^verbatim>\<open>socket.error\<close>, \<^verbatim>\<open>KeepAliveRequest.read\<close>
  returns \<^verbatim>\<open>None\<close> if the error number is \<^verbatim>\<open>ECONNRESET\<close> and raises the same error
  otherwise; the session is left as \<^verbatim>\<open>Request.read\<close> left it.
\<close>

theorem keepalive_reset_absorbed:
  "fst (Request_read rq) = Inl (SocketError n) \<Longrightarrow>
     KeepAliveRequest_read rq =
       ((if n = ECONNRESET then Inr None else Inl (SocketError n)), snd (Request_read rq))"
  by (cases "Request_read rq") (simp add: KeepAliveRequest_read_def)

text \<open>The theorem at a parser that meets \<^verbatim>\<open>ECONNRESET\<close> (104) and at one that meets
  \<^verbatim>\<open>EPIPE\<close> (32).\<close>

theorem keepalive_reset_absorbed_witness:
  "fst (Request_read (example_request\<lparr>parser := [Inl (SocketError 104)]\<rparr>)) =
     Inl (SocketError 104) \<and>
   KeepAliveRequest_read (example_request\<lparr>parser := [Inl (SocketError 104)]\<rparr>) =
     (Inr None, example_request\<lparr>parser := []\<rparr>) \<and>
   fst (Request_read (example_request\<lparr>parser := [Inl (SocketError 32)]\<rparr>)) =
     Inl (SocketError 32) \<and>
   KeepAliveRequest_read (example_request\<lparr>parser := [Inl (SocketError 32)]\<rparr>) =
     (Inl (SocketError 32), example_request\<lparr>parser := []\<rparr>)"
proof -
  have h1: "fst (Request_read (example_request\<lparr>parser := [Inl (SocketError 104)]\<rparr>)) =
      Inl (SocketError 104)"
    by (simp add: Request_read_def)
  have h2: "fst (Request_read (example_request\<lparr>parser := [Inl (SocketError 32)]\<rparr>)) =
      Inl (SocketError 32)"
    by (simp add: Request_read_def)
  show ?thesis
    using keepalive_reset_absorbed[OF h1] keepalive_reset_absorbed[OF h2] h1 h2
    by (simp add: Request_read_def ECONNRESET_def)
qed

subsection \<open>C9: host and port of an address\<close>

text \<open>
  Claim C9, as amended: a string address is cut at every colon; the host is the text
  before the first colon and the port the text between the first colon and the second
  (or the end), the empty string when there is no colon; neither index raises. With a
  string as forwarded address and a string as server address the context is built, and
  holds these as \<^verbatim>\<open>REMOTE_ADDR\<close>, \<^verbatim>\<open>REMOTE_PORT\<close>, \<^verbatim>\<open>SERVER_NAME\<close> and
  \<^verbatim>\<open>SERVER_PORT\<close>. With no \<^verbatim>\<open>X-Forwarded-For\<close> and the client address
  \<^verbatim>\<open>192.168.1.5:54321\<close> the context has \<^verbatim>\<open>REMOTE_ADDR\<close> \<^verbatim>\<open>192.168.1.5\<close> and
  \<^verbatim>\<open>REMOTE_PORT\<close> \<^verbatim>\<open>54321\<close>. (The claim as written cuts at the last colon.)
\<close>

theorem address_split_first_colon:
  "index (split_address a) 0 = Inr (before_colon a) \<and>
   index (split_address a) 1 = Inr (before_colon (after_colon a)) \<and>
   (CHR '':'' \<notin> set a \<longrightarrow> index (split_address a) 1 = Inr []) \<and>
   (forward_address v = AddrStr a \<and> server_address rq = AddrStr b \<longrightarrow>
      (\<exists>env. build_environ rq r v = Inr env \<and>
         env ''REMOTE_ADDR'' = Some (Val (Str (before_colon a))) \<and>
         env ''REMOTE_PORT'' = Some (Val (Str (before_colon (after_colon a)))) \<and>
         env ''SERVER_NAME'' = Some (Val (Str (before_colon b))) \<and>
         env ''SERVER_PORT'' = Some (Val (Str (before_colon (after_colon b)))))) \<and>
   map_sum id (\<lambda>env. (env ''REMOTE_ADDR'', env ''REMOTE_PORT''))
     (fst (Request_read (example_request\<lparr>client_address := AddrStr ''192.168.1.5:54321'',
        parser := [Inr (Some (example_parsed [(''Host'', ''example.org'')]))]\<rparr>))) =
     Inr (Some (Val (Str ''192.168.1.5'')), Some (Val (Str ''54321'')))"
proof (intro conjI impI)
  show "index (split_address a) 0 = Inr (before_colon a)"
    using index_split_address[of a] by simp
  show p: "index (split_address a) 1 = Inr (before_colon (after_colon a))"
    using index_split_address[of a] by simp
  show "index (split_address a) 1 = Inr []" if "CHR '':'' \<notin> set a"
  proof -
    have d: "dropWhile (\<lambda>c. c \<noteq> CHR '':'') a = []" using that by auto
    show ?thesis unfolding p before_colon_def after_colon_def d by simp
  qed
  show "\<exists>env. build_environ rq r v = Inr env \<and>
         env ''REMOTE_ADDR'' = Some (Val (Str (before_colon a))) \<and>
         env ''REMOTE_PORT'' = Some (Val (Str (before_colon (after_colon a)))) \<and>
         env ''SERVER_NAME'' = Some (Val (Str (before_colon b))) \<and>
         env ''SERVER_PORT'' = Some (Val (Str (before_colon (after_colon b))))"
    if "forward_address v = AddrStr a \<and> server_address rq = AddrStr b"
    using that by (intro build_environ_strings) simp_all
  show "map_sum id (\<lambda>env. (env ''REMOTE_ADDR'', env ''REMOTE_PORT''))
     (fst (Request_read (example_request\<lparr>client_address := AddrStr ''192.168.1.5:54321'',
        parser := [Inr (Some (example_parsed [(''Host'', ''example.org'')]))]\<rparr>))) =
     Inr (Some (Val (Str ''192.168.1.5'')), Some (Val (Str ''54321'')))"
    by (simp add: read_defs example_request_def example_parsed_def text_defs)
qed

text \<open>The theorem at the path of a Unix socket, which has no colon, as forwarded
  address.\<close>

theorem address_split_first_colon_witness:
  "CHR '':'' \<notin> set ''/tmp/gunicorn.sock'' \<and>
   index (split_address ''/tmp/gunicorn.sock'') 1 = Inr [] \<and>
   forward_address \<lparr>forward_address = AddrStr ''/tmp/gunicorn.sock'', script_name = [],
      content_type = [], content_length = []\<rparr> = AddrStr ''/tmp/gunicorn.sock'' \<and>
   server_address example_request = AddrStr ''127.0.0.1:8000'' \<and>
   (\<exists>env. build_environ example_request (example_parsed [])
       \<lparr>forward_address = AddrStr ''/tmp/gunicorn.sock'', script_name = [],
        content_type = [], content_length = []\<rparr> = Inr env \<and>
      env ''REMOTE_ADDR'' = Some (Val (Str ''/tmp/gunicorn.sock'')) \<and>
      env ''REMOTE_PORT'' = Some (Val (Str [])) \<and>
      env ''SERVER_NAME'' = Some (Val (Str ''127.0.0.1'')) \<and>
      env ''SERVER_PORT'' = Some (Val (Str ''8000'')))"
proof -
  let ?v = "\<lparr>forward_address = AddrStr ''/tmp/gunicorn.sock'', script_name = [],
      content_type = [], content_length = []\<rparr>"
  have h1: "CHR '':'' \<notin> set ''/tmp/gunicorn.sock''" by simp
  have h2: "forward_address ?v = AddrStr ''/tmp/gunicorn.sock''" by simp
  have h3: "server_address example_request = AddrStr ''127.0.0.1:8000''"
    by (simp add: example_request_def)
  show ?thesis
    using address_split_first_colon[of "''/tmp/gunicorn.sock''" ?v example_request
        "''127.0.0.1:8000''" "example_parsed []"] h1 h2 h3
    by (simp add: before_colon_def after_colon_def)
qed

text \<open>Against the claim as written: for the client address \<^verbatim>\<open>[::1]:8000\<close> the context
  has the host \<^verbatim>\<open>[\<close> and an empty port, where a split at the last colon gives
  \<^verbatim>\<open>[::1]\<close> and \<^verbatim>\<open>8000\<close>.\<close>

theorem address_not_split_at_last_colon:
  "map_sum id (\<lambda>env. (env ''REMOTE_ADDR'', env ''REMOTE_PORT''))
     (fst (Request_read (example_request\<lparr>client_address := AddrStr ''[::1]:8000'',
        parser := [Inr (Some (example_parsed []))]\<rparr>))) =
     Inr (Some (Val (Str ''['')), Some (Val (Str []))) \<and>
   split_last_colon ''[::1]:8000'' = (''[::1]'', ''8000'')"
  by (simp add: read_defs example_request_def example_parsed_def text_defs split_last_colon_def)

subsection \<open>C10: the \<^verbatim>\<open>Connection\<close> line of the base variant\<close>

text \<open>
  Claim C10: for a response of the base class, built from any status and any header list
  that the constructor accepts, the default header lines are the status line, the
  \<^verbatim>\<open>Server\<close> line, the \<^verbatim>\<open>Date\<close> line and \<^verbatim>\<open>Connection: close\<close>, whatever the session
  holds when they are built.
\<close>

theorem base_connection_close:
  "Response_init ResponseClass rq st hdrs = Inr r \<Longrightarrow>
     default_headers rq' r =
       Inr [''HTTP/1.1 '' @ st @ CRLF,
            ''Server: '' @ SERVER_VERSION rq @ CRLF,
            ''Date: '' @ http_date rq' @ CRLF,
            ''Connection: close'' @ CRLF]"
  by (auto simp: Response_init_def default_headers_def Response_default_headers_def
      split: sum.splits prod.splits)

text \<open>The theorem at a response built from \<^verbatim>\<open>Connection: Upgrade\<close>, in a session whose
  parsed request does not ask to close.\<close>

theorem base_connection_close_witness:
  "Response_init ResponseClass example_request ''404 Not Found''
     [(Str ''Connection'', Str ''Upgrade''), (Str ''Content-Length'', Str ''0'')] =
     Inr (example_response\<lparr>status := ''404 Not Found'',
            headers := [(''Connection'', ''Upgrade''), (''Content-Length'', ''0'')]\<rparr>) \<and>
   default_headers (example_request\<lparr>req := Some ((example_parsed [])\<lparr>req_should_close := False\<rparr>)\<rparr>)
     (example_response\<lparr>status := ''404 Not Found'',
            headers := [(''Connection'', ''Upgrade''), (''Content-Length'', ''0'')]\<rparr>) =
     Inr [''HTTP/1.1 404 Not Found'' @ CRLF, ''Server: gunicorn/0.5'' @ CRLF,
          ''Date: Thu, 01 Jan 1970 00:00:00 GMT'' @ CRLF, ''Connection: close'' @ CRLF]"
proof -
  let ?hdrs = "[(Str ''Connection'', Str ''Upgrade''), (Str ''Content-Length'', Str ''0'')]"
  let ?r = "example_response\<lparr>status := ''404 Not Found'',
            headers := [(''Connection'', ''Upgrade''), (''Content-Length'', ''0'')]\<rparr>"
  have h: "Response_init ResponseClass example_request ''404 Not Found'' ?hdrs = Inr ?r"
    by (simp add: Response_init_def example_request_def example_response_def text_defs)
  show ?thesis
    using base_connection_close[OF h,
        of "example_request\<lparr>req := Some ((example_parsed [])\<lparr>req_should_close := False\<rparr>)\<rparr>"] h
    by (simp add: example_request_def)
qed

end
